(* ===== verification/Prelude.thy ===== *)
theory Prelude
  imports Complex_Main "HOL-Library.Sublist"
begin

text \<open>
  Shared vocabulary of the camp-service development: the bind of the exception
  sum (Python code that may raise is a function into \<open>exc + 'a\<close>, the
  \<open>Inl\<close> side being the raised exception), the largest-key helper used for
  SQLite row-id allocation, and the generic list facts about strictly sorted
  key columns that the store and the handlers share.  The collection
  \<open>exc_simps\<close> gathers the evaluation rules of the exception sum so that
  component proofs can say \<open>simp add: exc_simps\<close>.
\<close>

named_theorems exc_simps "evaluation rules for code that may raise"

definition ebind :: "'e + 'a \<Rightarrow> ('a \<Rightarrow> 'e + 'b) \<Rightarrow> 'e + 'b" where
  "ebind m f = (case m of Inl e \<Rightarrow> Inl e | Inr a \<Rightarrow> f a)"

definition max_key :: "int list \<Rightarrow> int" where
  "max_key ks = fold max ks 0"

text \<open>\<open>str.split(c)\<close>: the pieces between occurrences of \<open>c\<close>.\<close>

fun split_on :: "char \<Rightarrow> string \<Rightarrow> string list" where
  "split_on d [] = [[]]"
| "split_on d (c # cs) =
     (if c = d then [] # split_on d cs
      else (case split_on d cs of w # ws \<Rightarrow> (c # w) # ws | [] \<Rightarrow> [[c]]))"

lemma ebind_Inl [simp, exc_simps]: "ebind (Inl e) f = Inl e"
  by (simp add: ebind_def)

lemma ebind_Inr [simp, exc_simps]: "ebind (Inr a) f = f a"
  by (simp add: ebind_def)

lemma ebind_eq_Inr [exc_simps]:
  "ebind m f = Inr b \<longleftrightarrow> (\<exists>a. m = Inr a \<and> f a = Inr b)"
  by (cases m) simp_all

lemma ebind_eq_Inl [exc_simps]:
  "ebind m f = Inl e \<longleftrightarrow> m = Inl e \<or> (\<exists>a. m = Inr a \<and> f a = Inl e)"
  by (cases m) simp_all

lemma fold_max_ge_start: "(a::int) \<le> fold max ks a"
proof (induction ks arbitrary: a)
  case Nil
  then show ?case by simp
next
  case (Cons x ks)
  have "a \<le> max x a" by simp
  also have "\<dots> \<le> fold max ks (max x a)" by (rule Cons.IH)
  finally show ?case by simp
qed

lemma fold_max_ge_member: "k \<in> set ks \<Longrightarrow> (k::int) \<le> fold max ks a"
proof (induction ks arbitrary: a)
  case Nil
  then show ?case by simp
next
  case (Cons x ks)
  show ?case
  proof (cases "k = x")
    case True
    have "x \<le> max x a" by simp
    also have "\<dots> \<le> fold max ks (max x a)" by (rule fold_max_ge_start)
    finally show ?thesis using True by simp
  next
    case False
    with Cons.prems have "k \<in> set ks" by simp
    then show ?thesis using Cons.IH by simp
  qed
qed

lemma fold_max_le: "(a::int) \<le> b \<Longrightarrow> \<forall>k\<in>set ks. k \<le> b \<Longrightarrow> fold max ks a \<le> b"
  by (induction ks arbitrary: a) auto

lemma max_key_above: "k \<in> set ks \<Longrightarrow> k < max_key ks + 1"
  unfolding max_key_def using fold_max_ge_member by fastforce

lemma max_key_fresh: "max_key ks + 1 \<notin> set ks"
  using max_key_above by fastforce

lemma sorted_wrt_less_snoc:
  "sorted_wrt (<) xs \<Longrightarrow> (\<And>x. x \<in> set xs \<Longrightarrow> x < y) \<Longrightarrow> sorted_wrt (<) (xs @ [y :: int])"
  by (simp add: sorted_wrt_append)

lemma sorted_wrt_less_map_filter:
  "sorted_wrt (<) (map f xs) \<Longrightarrow> sorted_wrt (<) (map f (filter P xs :: 'a list)) "
  by (induction xs) auto

lemma sorted_wrt_less_distinct: "sorted_wrt (<) (xs :: int list) \<Longrightarrow> distinct xs"
  by (induction xs) auto

lemma map_update_same_key:
  "map f (map (\<lambda>x. if f x = k then g x else x) xs) = map f xs"
  if "\<And>x. f (g x) = f x"
  using that by (induction xs) auto

lemma find_Some_pred: "find P xs = Some x \<Longrightarrow> P x \<and> x \<in> set xs"
  by (induction xs) (auto split: if_splits)

lemma those_map_Some:
  "(\<And>x. x \<in> set xs \<Longrightarrow> f x = Some (g x)) \<Longrightarrow> those (map f xs) = Some (map g xs)"
  by (induction xs) auto

lemma those_map_not_None:
  "(\<And>x. x \<in> set xs \<Longrightarrow> f x \<noteq> None) \<Longrightarrow> those (map f xs) \<noteq> None"
  by (induction xs) (auto split: option.splits)

lemma those_map_None:
  "x \<in> set xs \<Longrightarrow> f x = None \<Longrightarrow> those (map f xs) = None"
  by (induction xs) (auto split: option.splits)

lemma those_map_mono:
  "those (map f xs) = Some vs \<Longrightarrow> (\<And>x v. x \<in> set xs \<Longrightarrow> f x = Some v \<Longrightarrow> g x = Some v) \<Longrightarrow>
   those (map g xs) = Some vs"
  by (induction xs arbitrary: vs) (auto split: option.splits)

end
