(* ===== verification/PyValue.thy ===== *)
theory PyValue
  imports Prelude
begin

text \<open>
  The Python values the handlers of \<open>src/server/routes.py\<close> and the
  validators of \<open>src/server/models.py\<close> operate on.  A request body is
  parsed by \<open>request.get_json()\<close> (Python's \<open>json.loads\<close>) into a value of
  \<open>pyval\<close>: \<open>None\<close>, a bool, an unbounded int, a float (modelled by its exact
  rational value; JSON floats are finite decimals), a str, a list or a dict
  with string keys (json.loads keeps the last of duplicate keys, so a dict is
  modelled with distinct keys, looked up with \<open>map_of\<close>).

  The Python operations the source applies to such values are modelled with
  the exceptions they raise: truthiness (\<open>not name\<close>), the chained numeric
  comparison (\<open>8 <= age <= 18\<close>), \<open>dict.get\<close>, the \<open>in\<close> operator and
  subscription.  Decimal printing and parsing of integers (used by the URL
  converter \<open><int:id>\<close> and by SQLite's text affinity) are here too, with
  their round-trip lemma.
\<close>

datatype pyval =
    PNone
  | PBool bool
  | PInt int
  | PFloat rat
  | PStr string
  | PList "pyval list"
  | PDict "(string \<times> pyval) list"

datatype exc =
    AssertionError
  | TypeError
  | AttributeError
  | KeyError
  | OverflowError
  | InterfaceError
  | IntegrityError
  | RecursionError
  | ValueError
  | InvalidRequestError

fun py_truthy :: "pyval \<Rightarrow> bool" where
  "py_truthy PNone = False"
| "py_truthy (PBool b) = b"
| "py_truthy (PInt i) = (i \<noteq> 0)"
| "py_truthy (PFloat q) = (q \<noteq> 0)"
| "py_truthy (PStr s) = (s \<noteq> [])"
| "py_truthy (PList xs) = (xs \<noteq> [])"
| "py_truthy (PDict kvs) = (kvs \<noteq> [])"

text \<open>The numeric view of a value: bool is a subclass of int in Python.\<close>

fun py_num :: "pyval \<Rightarrow> rat option" where
  "py_num (PBool b) = Some (if b then 1 else 0)"
| "py_num (PInt i) = Some (of_int i)"
| "py_num (PFloat q) = Some q"
| "py_num _ = None"

text \<open>\<open>lo <= v <= hi\<close> with numeric constants: a non-number raises TypeError.\<close>

definition py_le_chain :: "rat \<Rightarrow> pyval \<Rightarrow> rat \<Rightarrow> exc + bool" where
  "py_le_chain lo v hi =
     (case py_num v of None \<Rightarrow> Inl TypeError | Some q \<Rightarrow> Inr (lo \<le> q \<and> q \<le> hi))"

text \<open>\<open>data.get(k)\<close>: only a dict has the method.\<close>

fun py_get :: "pyval \<Rightarrow> string \<Rightarrow> exc + pyval" where
  "py_get (PDict kvs) k = Inr (case map_of kvs k of None \<Rightarrow> PNone | Some v \<Rightarrow> v)"
| "py_get _ k = Inl AttributeError"

text \<open>\<open>k in data\<close> for a str key: dict membership, list element equality,
  substring test on a str; any other value is not iterable.\<close>

fun py_contains :: "string \<Rightarrow> pyval \<Rightarrow> exc + bool" where
  "py_contains k (PDict kvs) = Inr (map_of kvs k \<noteq> None)"
| "py_contains k (PList xs) = Inr (PStr k \<in> set xs)"
| "py_contains k (PStr s) = Inr (sublist k s)"
| "py_contains k _ = Inl TypeError"

text \<open>\<open>data[k]\<close> for a str key.\<close>

fun py_getitem :: "pyval \<Rightarrow> string \<Rightarrow> exc + pyval" where
  "py_getitem (PDict kvs) k = (case map_of kvs k of None \<Rightarrow> Inl KeyError | Some v \<Rightarrow> Inr v)"
| "py_getitem _ k = Inl TypeError"

definition digit_char :: "nat \<Rightarrow> char" where
  "digit_char d = char_of (48 + d)"

definition digit_val :: "char \<Rightarrow> nat" where
  "digit_val c = of_char c - 48"

definition is_digit :: "char \<Rightarrow> bool" where
  "is_digit c \<longleftrightarrow> 48 \<le> (of_char c :: nat) \<and> (of_char c :: nat) \<le> 57"

fun nat_digits :: "nat \<Rightarrow> string" where
  "nat_digits n = (if n < 10 then [digit_char n] else nat_digits (n div 10) @ [digit_char (n mod 10)])"

declare nat_digits.simps [simp del]

definition int_digits :: "int \<Rightarrow> string" where
  "int_digits i = (if i < 0 then CHR ''-'' # nat_digits (nat (- i)) else nat_digits (nat i))"

definition parse_nat :: "string \<Rightarrow> nat option" where
  "parse_nat s =
     (if s \<noteq> [] \<and> list_all is_digit s then Some (foldl (\<lambda>n c. 10 * n + digit_val c) 0 s) else None)"

definition parse_int :: "string \<Rightarrow> int option" where
  "parse_int s =
     (case s of CHR ''-'' # r \<Rightarrow> map_option (\<lambda>n. - int n) (parse_nat r)
              | _ \<Rightarrow> map_option int (parse_nat s))"

lemma digit_val_digit_char [simp]: "d < 10 \<Longrightarrow> digit_val (digit_char d) = d"
  by (simp add: digit_val_def digit_char_def of_char_of)

lemma is_digit_digit_char [simp]: "d < 10 \<Longrightarrow> is_digit (digit_char d)"
  by (simp add: is_digit_def digit_char_def of_char_of)

lemma nat_digits_all_digits: "list_all is_digit (nat_digits n)"
proof (induction n rule: nat_digits.induct)
  case (1 n)
  then show ?case by (subst nat_digits.simps) auto
qed

lemma nat_digits_nonempty [simp]: "nat_digits n \<noteq> []"
  by (subst nat_digits.simps) simp

lemma nat_digits_head: "hd (nat_digits n) \<noteq> CHR ''-''"
proof (induction n rule: nat_digits.induct)
  case (1 n)
  show ?case
  proof (cases "n < 10")
    case True
    then have "of_char (digit_char n) \<noteq> (of_char (CHR ''-'') :: nat)"
      by (simp add: digit_char_def of_char_of)
    with True show ?thesis by (subst nat_digits.simps) auto
  next
    case False
    with "1" show ?thesis by (subst nat_digits.simps) simp
  qed
qed

lemma foldl_nat_digits: "foldl (\<lambda>n c. 10 * n + digit_val c) 0 (nat_digits n) = n"
proof (induction n rule: nat_digits.induct)
  case (1 n)
  show ?case
  proof (cases "n < 10")
    case True
    then show ?thesis by (subst nat_digits.simps) simp
  next
    case False
    with "1" have "foldl (\<lambda>n c. 10 * n + digit_val c) 0 (nat_digits (n div 10)) = n div 10"
      by simp
    with False show ?thesis by (subst nat_digits.simps) simp
  qed
qed

lemma py_le_chain_Inr:
  "py_le_chain lo v hi = Inr b \<longleftrightarrow> (\<exists>q. py_num v = Some q \<and> b = (lo \<le> q \<and> q \<le> hi))"
  by (auto simp: py_le_chain_def split: option.splits)

lemma py_le_chain_Inl: "py_le_chain lo v hi = Inl e \<longleftrightarrow> py_num v = None \<and> e = TypeError"
  by (auto simp: py_le_chain_def split: option.splits)

lemma py_contains_dict: "py_contains k (PDict kvs) = Inr True \<Longrightarrow> \<exists>v. map_of kvs k = Some v"
  by auto

lemma py_getitem_after_contains:
  "py_contains k d = Inr True \<Longrightarrow> \<exists>v. py_getitem d k = Inr v \<or> py_getitem d k = Inl TypeError"
  by (cases d) auto

text \<open>
  Decimal printing and the digit parser used by the \<open><int:id>\<close> URL
  converter and by SQLite's integer parsing are inverse: parsing the printed
  form of any natural number gives it back.
\<close>

theorem parse_nat_nat_digits: "parse_nat (nat_digits n) = Some n"
  by (simp add: parse_nat_def nat_digits_all_digits foldl_nat_digits)

end
