(* ===== verification/Models.thy ===== *)
theory Models
  imports PyValue
begin

text \<open>
  The domain model of \<open>src/server/models.py\<close>: the three mapped classes
  \<open>Camper\<close>, \<open>Activity\<close> and \<open>Signup\<close> as records of their columns, the
  \<open>@validates\<close> hooks as functions into \<open>exc + pyval\<close> (the hook returns
  the value to store or raises), and the declarative constructors, which
  assign their keyword arguments in the order written at the call site and
  so run the hooks in that order.  SQLite stores values dynamically typed,
  so a stored name, age, time or foreign key is a \<open>pyval\<close>; only the
  generated primary keys are plain integers.

  The predicates \<open>age_ok\<close>, \<open>time_ok\<close> and \<open>camper_ok\<close> say what the
  hooks guarantee of a stored row; the lemmas characterise each hook exactly
  (which inputs pass, which raise and with what).
\<close>

record camper_row =
  c_id :: int
  c_name :: pyval
  c_age :: pyval

record activity_row =
  a_id :: int
  a_name :: pyval
  a_difficulty :: pyval

record signup_row =
  s_id :: int
  s_time :: pyval
  s_camper_id :: pyval
  s_activity_id :: pyval

text \<open>\<open>Camper.validate_name\<close>: \<open>if not name: raise AssertionError\<close>.\<close>

definition validate_name :: "pyval \<Rightarrow> exc + pyval" where
  "validate_name name = (if \<not> py_truthy name then Inl AssertionError else Inr name)"

text \<open>\<open>Camper.validate_age\<close>: \<open>if not (8 <= age <= 18): raise AssertionError\<close>;
  the comparison itself raises TypeError on a non-number.\<close>

definition validate_age :: "pyval \<Rightarrow> exc + pyval" where
  "validate_age age =
     ebind (py_le_chain 8 age 18) (\<lambda>ok. if \<not> ok then Inl AssertionError else Inr age)"

text \<open>\<open>Signup.validate_time\<close>: \<open>if not (0 <= time <= 23): raise AssertionError\<close>.\<close>

definition validate_time :: "pyval \<Rightarrow> exc + pyval" where
  "validate_time time =
     ebind (py_le_chain 0 time 23) (\<lambda>ok. if \<not> ok then Inl AssertionError else Inr time)"

text \<open>
  \<open>Camper(name=..., age=...)\<close>: the constructor assigns \<open>name\<close> then
  \<open>age\<close>, each through its hook; the result is the pair of attribute values
  of the pending object.  \<open>Signup(camper_id=..., activity_id=..., time=...)\<close>
  has a hook on \<open>time\<close> only.
\<close>

definition camper_init :: "pyval \<Rightarrow> pyval \<Rightarrow> exc + pyval \<times> pyval" where
  "camper_init name age =
     ebind (validate_name name) (\<lambda>n. ebind (validate_age age) (\<lambda>a. Inr (n, a)))"

definition signup_init :: "pyval \<Rightarrow> pyval \<Rightarrow> pyval \<Rightarrow> exc + pyval \<times> pyval \<times> pyval" where
  "signup_init camper_id activity_id time =
     ebind (validate_time time) (\<lambda>t. Inr (camper_id, activity_id, t))"

definition age_ok :: "pyval \<Rightarrow> bool" where
  "age_ok v = (case py_num v of Some q \<Rightarrow> 8 \<le> q \<and> q \<le> 18 | None \<Rightarrow> False)"

definition time_ok :: "pyval \<Rightarrow> bool" where
  "time_ok v = (case py_num v of Some q \<Rightarrow> 0 \<le> q \<and> q \<le> 23 | None \<Rightarrow> False)"

definition camper_ok :: "camper_row \<Rightarrow> bool" where
  "camper_ok c \<longleftrightarrow> py_truthy (c_name c) \<and> age_ok (c_age c)"

lemma validate_name_Inr: "validate_name v = Inr v' \<longleftrightarrow> v' = v \<and> py_truthy v"
  by (auto simp: validate_name_def)

lemma validate_age_Inr: "validate_age v = Inr v' \<longleftrightarrow> v' = v \<and> age_ok v"
  by (auto simp: validate_age_def age_ok_def py_le_chain_def split: option.splits)

lemma validate_time_Inr: "validate_time v = Inr v' \<longleftrightarrow> v' = v \<and> time_ok v"
  by (auto simp: validate_time_def time_ok_def py_le_chain_def split: option.splits)

lemma validate_name_ok [simp]: "py_truthy v \<Longrightarrow> validate_name v = Inr v"
  by (simp add: validate_name_Inr)

lemma validate_age_ok [simp]: "age_ok v \<Longrightarrow> validate_age v = Inr v"
  by (simp add: validate_age_Inr)

lemma validate_time_ok [simp]: "time_ok v \<Longrightarrow> validate_time v = Inr v"
  by (simp add: validate_time_Inr)

lemma camper_init_Inr:
  "camper_init name age = Inr na \<longleftrightarrow> na = (name, age) \<and> py_truthy name \<and> age_ok age"
  by (auto simp: camper_init_def ebind_eq_Inr validate_name_Inr validate_age_Inr)

lemma signup_init_Inr:
  "signup_init cid aid time = Inr r \<longleftrightarrow> r = (cid, aid, time) \<and> time_ok time"
  by (auto simp: signup_init_def ebind_eq_Inr validate_time_Inr)

lemma camper_init_cases:
  "(\<exists>e. camper_init name age = Inl e) \<or> camper_init name age = Inr (name, age)"
  by (cases "camper_init name age") (auto simp: camper_init_Inr)

lemma signup_init_cases:
  "(\<exists>e. signup_init cid aid time = Inl e) \<or> signup_init cid aid time = Inr (cid, aid, time)"
  by (cases "signup_init cid aid time") (auto simp: signup_init_Inr)

text \<open>
  C15. The age hook raises exactly in two ways: TypeError when the value is
  not a number (None, a string, a list, a dict), AssertionError when it is a
  number (bool, int or float) outside 8..18.
\<close>

theorem validate_age_errors:
  "validate_age v = Inl e \<longleftrightarrow>
     (py_num v = None \<and> e = TypeError) \<or>
     (\<exists>q. py_num v = Some q \<and> \<not> (8 \<le> q \<and> q \<le> 18) \<and> e = AssertionError)"
  by (auto simp: validate_age_def py_le_chain_def split: option.splits)

theorem validate_age_errors_witness:
  "validate_age (PStr ''12'') = Inl TypeError \<and> validate_age (PInt 25) = Inl AssertionError"
proof -
  have "validate_age (PStr ''12'') = Inl TypeError"
    using validate_age_errors [of "PStr ''12''" TypeError] by simp
  moreover have "validate_age (PInt 25) = Inl AssertionError"
    using validate_age_errors [of "PInt 25" AssertionError] by simp
  ultimately show ?thesis ..
qed

end
