(* ===== verification/Store.thy ===== *)
theory Store
  imports Models
begin

text \<open>
  The data store: the three tables of the SQLite database behind
  Flask-SQLAlchemy (\<open>campers\<close>, \<open>activities\<close>, \<open>signups\<close>), each a list of
  rows in row-id order, which is the order \<open>Model.query.all()\<close> returns them
  in.  The operations are the ones the handlers perform through the ORM
  session: \<open>Model.query.get(v)\<close> (identity lookup, with SQLite's comparison of
  an INTEGER key against the bound value), \<open>session.add\<close> + \<open>commit\<close> of a
  new row (parameter binding, NOT NULL checks, row-id allocation as the
  largest row id plus one, and the column affinity SQLite applies to the
  stored value), the UPDATE of a dirty camper, and \<open>session.delete\<close> of an
  activity with the ORM cascade \<open>all, delete-orphan\<close> of
  \<open>Activity.signups\<close> (\<open>src/server/models.py\<close>, line 48).

  \<open>wf_db\<close> is the store invariant: row ids strictly increasing (hence
  unique), every camper's name truthy and age within 8..18, every signup's
  time within 0..23, and every signup's foreign keys naming live rows.
\<close>

record db =
  campers :: "camper_row list"
  activities :: "activity_row list"
  signups :: "signup_row list"

definition empty_db :: db where
  "empty_db = \<lparr>campers = [], activities = [], signups = []\<rparr>"

definition int64_ok :: "int \<Rightarrow> bool" where
  "int64_ok i \<longleftrightarrow> - (2 ^ 63) \<le> i \<and> i < 2 ^ 63"

text \<open>Binding a Python value as a parameter of the sqlite3 driver.\<close>

fun bind_param :: "pyval \<Rightarrow> exc + pyval" where
  "bind_param (PInt i) = (if int64_ok i then Inr (PInt i) else Inl OverflowError)"
| "bind_param (PList xs) = Inl InterfaceError"
| "bind_param (PDict kvs) = Inl InterfaceError"
| "bind_param v = Inr v"

definition bind_not_null :: "pyval \<Rightarrow> exc + pyval" where
  "bind_not_null v = ebind (bind_param v) (\<lambda>b. if b = PNone then Inl IntegrityError else Inr b)"

text \<open>Column affinity: what an INTEGER column and a TEXT (\<open>db.String\<close>) column
  store for a bound value.  A bool is bound as an int.\<close>

fun int_affinity :: "pyval \<Rightarrow> pyval" where
  "int_affinity (PBool b) = PInt (if b then 1 else 0)"
| "int_affinity (PFloat q) =
     (if q = of_int \<lfloor>q\<rfloor> \<and> int64_ok \<lfloor>q\<rfloor> then PInt \<lfloor>q\<rfloor> else PFloat q)"
| "int_affinity (PStr s) =
     (case parse_int s of Some i \<Rightarrow> if int64_ok i then PInt i else PStr s | None \<Rightarrow> PStr s)"
| "int_affinity v = v"

fun text_affinity :: "pyval \<Rightarrow> pyval" where
  "text_affinity (PInt i) = PStr (int_digits i)"
| "text_affinity (PBool b) = PStr (if b then ''1'' else ''0'')"
| "text_affinity v = v"

text \<open>
  The integer key \<open>Model.query.get(v)\<close> can find a row under, for a scalar
  identity value: \<open>Inr None\<close> when no row can match, \<open>Inl\<close> when
  binding the key raises.  A list or dict inside the identity cannot be
  hashed into the session's identity-map key (TypeError).
\<close>

fun pk_scalar :: "pyval \<Rightarrow> exc + int option" where
  "pk_scalar PNone = Inr None"
| "pk_scalar (PBool b) = Inr (Some (if b then 1 else 0))"
| "pk_scalar (PInt i) = (if int64_ok i then Inr (Some i) else Inl OverflowError)"
| "pk_scalar (PFloat q) = Inr (if q = of_int \<lfloor>q\<rfloor> \<and> int64_ok \<lfloor>q\<rfloor> then Some \<lfloor>q\<rfloor> else None)"
| "pk_scalar (PStr s) =
     Inr (case parse_int s of Some i \<Rightarrow> if int64_ok i then Some i else None | None \<Rightarrow> None)"
| "pk_scalar (PList xs) = Inl TypeError"
| "pk_scalar (PDict kvs) = Inl TypeError"

text \<open>SQLAlchemy's \<open>Session._get_impl\<close> reads the identity argument: a dict
  must have exactly the primary-key names as keys (here \<open>id\<close>), a list
  exactly one value per primary-key column, anything else is one value;
  otherwise it raises InvalidRequestError, outside any \<open>try\<close> of the views.\<close>

fun pk_identity :: "pyval \<Rightarrow> exc + int option" where
  "pk_identity (PList xs) = (case xs of [v] \<Rightarrow> pk_scalar v | _ \<Rightarrow> Inl InvalidRequestError)"
| "pk_identity (PDict kvs) =
     (case kvs of [(k, v)] \<Rightarrow> if k = ''id'' then pk_scalar v else Inl InvalidRequestError
                | _ \<Rightarrow> Inl InvalidRequestError)"
| "pk_identity v = pk_scalar v"

definition next_rowid :: "int list \<Rightarrow> int" where
  "next_rowid ids = max_key ids + 1"

definition get_camper :: "db \<Rightarrow> pyval \<Rightarrow> exc + camper_row option" where
  "get_camper s v =
     ebind (pk_identity v)
       (\<lambda>k. Inr (case k of None \<Rightarrow> None | Some i \<Rightarrow> find (\<lambda>c. c_id c = i) (campers s)))"

definition get_activity :: "db \<Rightarrow> pyval \<Rightarrow> exc + activity_row option" where
  "get_activity s v =
     ebind (pk_identity v)
       (\<lambda>k. Inr (case k of None \<Rightarrow> None | Some i \<Rightarrow> find (\<lambda>a. a_id a = i) (activities s)))"

text \<open>\<open>session.add(Camper(...)); session.commit()\<close>: INSERT of the pending
  name and age, both NOT NULL; the new row gets the next row id.\<close>

definition new_camper :: "db \<Rightarrow> pyval \<times> pyval \<Rightarrow> camper_row" where
  "new_camper s na =
     \<lparr>c_id = next_rowid (map c_id (campers s)),
      c_name = text_affinity (fst na), c_age = int_affinity (snd na)\<rparr>"

definition insert_camper :: "pyval \<times> pyval \<Rightarrow> db \<Rightarrow> exc + camper_row \<times> db" where
  "insert_camper na s =
     ebind (bind_not_null (fst na)) (\<lambda>_. ebind (bind_not_null (snd na)) (\<lambda>_.
       let c = new_camper s na in Inr (c, s\<lparr>campers := campers s @ [c]\<rparr>)))"

text \<open>Commit of a camper whose \<open>name\<close> and/or \<open>age\<close> attribute was assigned:
  an UPDATE of the assigned columns of row \<open>i\<close>.\<close>

definition set_column :: "(pyval \<Rightarrow> pyval) \<Rightarrow> pyval option \<Rightarrow> pyval \<Rightarrow> pyval" where
  "set_column aff new old = (case new of None \<Rightarrow> old | Some v \<Rightarrow> aff v)"

definition check_column :: "pyval option \<Rightarrow> exc + unit" where
  "check_column new = (case new of None \<Rightarrow> Inr () | Some v \<Rightarrow> ebind (bind_not_null v) (\<lambda>_. Inr ()))"

definition update_camper_row :: "int \<Rightarrow> pyval option \<Rightarrow> pyval option \<Rightarrow> db \<Rightarrow> exc + db" where
  "update_camper_row i new_name new_age s =
     ebind (check_column new_name) (\<lambda>_. ebind (check_column new_age) (\<lambda>_.
       Inr (s\<lparr>campers := map (\<lambda>c. if c_id c = i
                                    then c\<lparr>c_name := set_column text_affinity new_name (c_name c),
                                           c_age := set_column int_affinity new_age (c_age c)\<rparr>
                                    else c) (campers s)\<rparr>)))"

text \<open>\<open>session.add(Signup(...)); session.commit()\<close>: all three columns NOT NULL
  and of INTEGER affinity.\<close>

definition new_signup :: "db \<Rightarrow> pyval \<times> pyval \<times> pyval \<Rightarrow> signup_row" where
  "new_signup s r =
     (case r of (cid, aid, t) \<Rightarrow>
        \<lparr>s_id = next_rowid (map s_id (signups s)), s_time = int_affinity t,
         s_camper_id = int_affinity cid, s_activity_id = int_affinity aid\<rparr>)"

definition insert_signup :: "pyval \<times> pyval \<times> pyval \<Rightarrow> db \<Rightarrow> exc + signup_row \<times> db" where
  "insert_signup r s =
     (case r of (cid, aid, t) \<Rightarrow>
       ebind (bind_not_null t) (\<lambda>_. ebind (bind_not_null cid) (\<lambda>_. ebind (bind_not_null aid) (\<lambda>_.
         let x = new_signup s r in Inr (x, s\<lparr>signups := signups s @ [x]\<rparr>)))))"

text \<open>\<open>session.delete(activity); session.commit()\<close>: the cascade on
  \<open>Activity.signups\<close> deletes the activity's signups, then the activity.\<close>

definition delete_activity_cascade :: "int \<Rightarrow> db \<Rightarrow> db" where
  "delete_activity_cascade i s =
     s\<lparr>signups := filter (\<lambda>x. s_activity_id x \<noteq> PInt i) (signups s),
       activities := filter (\<lambda>a. a_id a \<noteq> i) (activities s)\<rparr>"

text \<open>\<open>session.delete(camper); session.commit()\<close>: the cascade on
  \<open>Camper.signups\<close> (\<open>cascade='all, delete-orphan'\<close>) deletes the camper's
  signups, then the camper.  No view of \<open>routes.py\<close> deletes a camper; the
  operation is the one the mapping configures.\<close>

definition delete_camper_cascade :: "int \<Rightarrow> db \<Rightarrow> db" where
  "delete_camper_cascade i s =
     s\<lparr>signups := filter (\<lambda>x. s_camper_id x \<noteq> PInt i) (signups s),
       campers := filter (\<lambda>c. c_id c \<noteq> i) (campers s)\<rparr>"

text \<open>The relationships \<open>Camper.signups\<close>, \<open>Activity.signups\<close> and their
  backrefs \<open>Signup.camper\<close>, \<open>Signup.activity\<close>, as the lazy loads query them.\<close>

definition camper_signups :: "db \<Rightarrow> camper_row \<Rightarrow> signup_row list" where
  "camper_signups s c = filter (\<lambda>x. s_camper_id x = PInt (c_id c)) (signups s)"

definition activity_signups :: "db \<Rightarrow> activity_row \<Rightarrow> signup_row list" where
  "activity_signups s a = filter (\<lambda>x. s_activity_id x = PInt (a_id a)) (signups s)"

definition signup_camper :: "db \<Rightarrow> signup_row \<Rightarrow> camper_row option" where
  "signup_camper s x = find (\<lambda>c. PInt (c_id c) = s_camper_id x) (campers s)"

definition signup_activity :: "db \<Rightarrow> signup_row \<Rightarrow> activity_row option" where
  "signup_activity s x = find (\<lambda>a. PInt (a_id a) = s_activity_id x) (activities s)"

definition refs_ok :: "db \<Rightarrow> signup_row \<Rightarrow> bool" where
  "refs_ok s x \<longleftrightarrow>
     s_camper_id x \<in> PInt ` set (map c_id (campers s)) \<and>
     s_activity_id x \<in> PInt ` set (map a_id (activities s))"

definition wf_db :: "db \<Rightarrow> bool" where
  "wf_db s \<longleftrightarrow>
     sorted_wrt (<) (map c_id (campers s)) \<and>
     sorted_wrt (<) (map a_id (activities s)) \<and>
     sorted_wrt (<) (map s_id (signups s)) \<and>
     list_all camper_ok (campers s) \<and>
     list_all (\<lambda>x. time_ok (s_time x)) (signups s) \<and>
     list_all (refs_ok s) (signups s)"

lemma set_column_None [simp]: "set_column f None v = v"
  by (simp add: set_column_def)

lemma set_column_Some [simp]: "set_column f (Some x) v = f x"
  by (simp add: set_column_def)

lemma int_digits_nonempty [simp]: "int_digits i \<noteq> []"
  by (simp add: int_digits_def)

lemma pk_scalar_affinity: "pk_scalar v = Inr (Some k) \<Longrightarrow> int_affinity v = PInt k"
  by (cases v) (auto split: if_splits option.splits)

lemma pk_identity_bound:
  "pk_identity v = Inr (Some k) \<Longrightarrow> bind_param v = Inr b \<Longrightarrow> pk_scalar v = Inr (Some k)"
  by (cases v) auto

lemma pk_identity_affinity:
  "pk_identity v = Inr (Some k) \<Longrightarrow> bind_param v = Inr b \<Longrightarrow> int_affinity v = PInt k"
  using pk_identity_bound pk_scalar_affinity by blast

lemma int_affinity_num: "py_num v \<noteq> None \<Longrightarrow> py_num (int_affinity v) = py_num v"
  by (cases v) auto

lemma age_ok_int_affinity: "age_ok v \<Longrightarrow> age_ok (int_affinity v)"
  using int_affinity_num [of v] by (auto simp: age_ok_def split: option.splits)

lemma time_ok_int_affinity: "time_ok v \<Longrightarrow> time_ok (int_affinity v)"
  using int_affinity_num [of v] by (auto simp: time_ok_def split: option.splits)

lemma truthy_text_affinity: "py_truthy v \<Longrightarrow> py_truthy (text_affinity v)"
  by (cases v) auto

lemma next_rowid_above: "k \<in> set ids \<Longrightarrow> k < next_rowid ids"
  using max_key_above [of k ids] by (simp add: next_rowid_def)

lemma get_camper_Some:
  "get_camper s v = Inr (Some c) \<Longrightarrow> c \<in> set (campers s) \<and> pk_identity v = Inr (Some (c_id c))"
  by (auto simp: get_camper_def ebind_eq_Inr find_Some_iff nth_mem split: option.splits)

lemma get_activity_Some:
  "get_activity s v = Inr (Some a) \<Longrightarrow> a \<in> set (activities s) \<and> pk_identity v = Inr (Some (a_id a))"
  by (auto simp: get_activity_def ebind_eq_Inr find_Some_iff nth_mem split: option.splits)

lemma bind_not_null_Inr: "bind_not_null v = Inr b \<Longrightarrow> b = v"
  by (cases v) (auto simp: bind_not_null_def split: if_splits)

lemma insert_camper_Inr:
  "insert_camper na s = Inr (c, s') \<Longrightarrow>
     s' = s\<lparr>campers := campers s @ [c]\<rparr> \<and> c_id c = next_rowid (map c_id (campers s)) \<and>
     c_name c = text_affinity (fst na) \<and> c_age c = int_affinity (snd na)"
  by (auto simp: insert_camper_def new_camper_def ebind_eq_Inr Let_def)

lemma insert_signup_Inr:
  "insert_signup (cid, aid, t) s = Inr (x, s') \<Longrightarrow>
     s' = s\<lparr>signups := signups s @ [x]\<rparr> \<and> s_id x = next_rowid (map s_id (signups s)) \<and>
     s_time x = int_affinity t \<and> s_camper_id x = int_affinity cid \<and> s_activity_id x = int_affinity aid"
  by (auto simp: insert_signup_def new_signup_def ebind_eq_Inr Let_def)

lemma insert_signup_binds:
  "insert_signup (cid, aid, t) s = Inr r \<Longrightarrow> bind_not_null cid = Inr cid \<and> bind_not_null aid = Inr aid"
  by (auto simp: insert_signup_def ebind_eq_Inr dest: bind_not_null_Inr)

lemma update_camper_row_Inr:
  "update_camper_row i nn na s = Inr s' \<Longrightarrow>
     s' = s\<lparr>campers := map (\<lambda>c. if c_id c = i
                                 then c\<lparr>c_name := set_column text_affinity nn (c_name c),
                                        c_age := set_column int_affinity na (c_age c)\<rparr>
                                 else c) (campers s)\<rparr>"
  by (auto simp: update_camper_row_def ebind_eq_Inr)

lemma refs_ok_signups_update [simp]: "refs_ok (s\<lparr>signups := xs\<rparr>) = refs_ok s"
  by (simp add: refs_ok_def fun_eq_iff)

lemma camper_ok_set_columns:
  "camper_ok c \<Longrightarrow> pred_option py_truthy nn \<Longrightarrow> pred_option age_ok na \<Longrightarrow>
   camper_ok (c\<lparr>c_name := set_column text_affinity nn (c_name c),
                c_age := set_column int_affinity na (c_age c)\<rparr>)"
  by (cases nn; cases na)
     (auto simp: camper_ok_def set_column_def truthy_text_affinity age_ok_int_affinity)

lemma refs_ok_campers_mono:
  "set (map c_id (campers s)) \<subseteq> set (map c_id (campers s')) \<Longrightarrow> activities s' = activities s \<Longrightarrow>
   refs_ok s x \<Longrightarrow> refs_ok s' x"
  by (auto simp: refs_ok_def)

lemma wf_insert_camper:
  assumes wf: "wf_db s" and name: "py_truthy (fst na)" and age: "age_ok (snd na)"
    and ins: "insert_camper na s = Inr (c, s')"
  shows "wf_db s'"
proof -
  from ins have s': "s' = s\<lparr>campers := campers s @ [c]\<rparr>"
    and cid: "c_id c = next_rowid (map c_id (campers s))"
    and c: "c_name c = text_affinity (fst na)" "c_age c = int_affinity (snd na)"
    by (auto dest: insert_camper_Inr)
  have "sorted_wrt (<) (map c_id (campers s) @ [c_id c])"
    using wf by (intro sorted_wrt_less_snoc) (auto simp: wf_db_def cid next_rowid_above)
  moreover have "camper_ok c"
    using name age c by (simp add: camper_ok_def truthy_text_affinity age_ok_int_affinity)
  moreover have "list_all (refs_ok s') (signups s)"
  proof -
    have "refs_ok s' x" if "refs_ok s x" for x
      using that s' by (auto simp: refs_ok_def)
    with wf show ?thesis by (auto simp: wf_db_def list_all_iff)
  qed
  ultimately show ?thesis using wf s' by (simp add: wf_db_def)
qed

lemma wf_update_camper_row:
  assumes wf: "wf_db s" and name: "pred_option py_truthy nn" and age: "pred_option age_ok na"
    and upd: "update_camper_row i nn na s = Inr s'"
  shows "wf_db s'"
proof -
  let ?f = "\<lambda>c. if c_id c = i
                 then c\<lparr>c_name := set_column text_affinity nn (c_name c),
                        c_age := set_column int_affinity na (c_age c)\<rparr> else c"
  from upd have s': "s' = s\<lparr>campers := map ?f (campers s)\<rparr>"
    by (rule update_camper_row_Inr)
  have ids: "map c_id (map ?f (campers s)) = map c_id (campers s)"
    by (induction "campers s") auto
  have "camper_ok (?f c)" if "c \<in> set (campers s)" for c
    using that wf camper_ok_set_columns [OF _ name age] by (auto simp: wf_db_def list_all_iff)
  then have cam: "list_all camper_ok (map ?f (campers s))"
    by (simp only: list_all_iff set_map) blast
  have c': "campers s' = map ?f (campers s)"
    and o': "activities s' = activities s" "signups s' = signups s"
    using s' by simp_all
  have ids': "map c_id (campers s') = map c_id (campers s)"
    using c' ids by simp
  have r': "refs_ok s' = refs_ok s"
    using o' ids' by (simp add: refs_ok_def fun_eq_iff)
  have "list_all camper_ok (campers s')"
    unfolding c' by (rule cam)
  with wf show ?thesis
    unfolding wf_db_def ids' o' r' by simp
qed

lemma wf_insert_signup:
  assumes wf: "wf_db s" and t: "time_ok t"
    and cid: "int_affinity cid \<in> PInt ` set (map c_id (campers s))"
    and aid: "int_affinity aid \<in> PInt ` set (map a_id (activities s))"
    and ins: "insert_signup (cid, aid, t) s = Inr (x, s')"
  shows "wf_db s'"
proof -
  from ins have s': "s' = s\<lparr>signups := signups s @ [x]\<rparr>"
    and xid: "s_id x = next_rowid (map s_id (signups s))"
    and x: "s_time x = int_affinity t" "s_camper_id x = int_affinity cid"
           "s_activity_id x = int_affinity aid"
    by (auto dest: insert_signup_Inr)
  have "sorted_wrt (<) (map s_id (signups s) @ [s_id x])"
    using wf by (intro sorted_wrt_less_snoc) (auto simp: wf_db_def xid next_rowid_above)
  moreover have "refs_ok s x"
    using cid aid x by (simp add: refs_ok_def)
  ultimately show ?thesis
    using wf s' t x by (simp add: wf_db_def time_ok_int_affinity)
qed

lemma wf_delete_activity_cascade:
  assumes wf: "wf_db s"
  shows "wf_db (delete_activity_cascade i s)"
proof -
  let ?s' = "delete_activity_cascade i s"
  have "refs_ok ?s' x" if "x \<in> set (signups s)" "s_activity_id x \<noteq> PInt i" for x
    using that wf by (auto simp: wf_db_def list_all_iff refs_ok_def delete_activity_cascade_def)
  then have "list_all (refs_ok ?s') (signups ?s')"
    by (auto simp: list_all_iff delete_activity_cascade_def)
  then show ?thesis
    using wf by (auto simp: wf_db_def delete_activity_cascade_def list_all_iff
                      intro: sorted_wrt_less_map_filter)
qed

lemma wf_delete_camper_cascade:
  assumes wf: "wf_db s"
  shows "wf_db (delete_camper_cascade i s)"
proof -
  let ?s' = "delete_camper_cascade i s"
  have "refs_ok ?s' x" if "x \<in> set (signups s)" "s_camper_id x \<noteq> PInt i" for x
    using that wf by (auto simp: wf_db_def list_all_iff refs_ok_def delete_camper_cascade_def)
  then have "list_all (refs_ok ?s') (signups ?s')"
    by (auto simp: list_all_iff delete_camper_cascade_def)
  then show ?thesis
    using wf by (auto simp: wf_db_def delete_camper_cascade_def list_all_iff
                      intro: sorted_wrt_less_map_filter)
qed

text \<open>
  Row-id allocation agrees with SQLite's documented rule for a rowid
  table without AUTOINCREMENT: one more than the largest rowid in use, or 1
  when the table is empty (ids being non-negative, as they are in every store
  the service produces).
\<close>

theorem next_rowid_Max:
  "list_all (\<lambda>k. 0 \<le> k) ids \<Longrightarrow> next_rowid ids = (if ids = [] then 1 else Max (set ids) + 1)"
proof (cases ids)
  case (Cons k ks)
  assume "list_all (\<lambda>k. 0 \<le> k) ids"
  with Cons have "fold max ks (max k 0) = fold max ks k" by simp
  with Cons show ?thesis
    using Max.set_eq_fold [of k ks] by (simp add: next_rowid_def max_key_def)
qed (simp add: next_rowid_def max_key_def)

theorem next_rowid_Max_witness:
  "list_all (\<lambda>k. 0 \<le> k) [3, 1, 2 :: int] \<and> next_rowid [3, 1, 2] = 4"
  using next_rowid_Max [of "[3, 1, 2]"] by simp

end
