(* ===== verification/Serializer.thy ===== *)
theory Serializer
  imports Store
begin

text \<open>
  The serialization layer: \<open>to_dict\<close> of \<open>SerializerMixin\<close>
  (library sqlalchemy-serializer), which every model of
  \<open>src/server/models.py\<close> mixes in, driven by the models' class attributes
  \<open>serialize_rules\<close> (lines 21, 51, 75) and by the \<open>rules=\<close> argument of the
  call site (\<open>src/server/routes.py\<close>, line 31).

  The library serializes every mapped attribute of an instance (its columns
  and its relationships, backrefs included) unless a rule \<open>-key\<close> excludes it;
  a dotted rule \<open>a.b\<close> is handed down to the serialization of the objects under
  relationship \<open>a\<close> as rule \<open>b\<close>; at each object the rules of the call are
  extended by the object's own class rules.  Inclusion rules (without
  \<open>-\<close>) never remove a key.  The recursion through relationships is bounded
  only by the exclusion rules, so \<open>to_dict\<close> carries fuel: its first argument
  is the depth still allowed, and \<open>None\<close> is the \<open>RecursionError\<close> that an
  unbounded expansion ends in.  \<open>recursion_budget\<close> stands for Python's
  recursion limit; the lemmas show that the code's rules never need more
  than three levels, so any budget of at least three gives the same result.

  The explicit view builders \<open>camper_view\<close>, \<open>activity_view\<close>,
  \<open>signup_view\<close> are the abstract specification of what each call returns;
  the refinement lemmas show \<open>to_dict\<close> under the code's rules computes
  exactly them.
\<close>

datatype obj = OCamper camper_row | OActivity activity_row | OSignup signup_row

type_synonym rule = "bool \<times> string list"

definition parse_rule :: "string \<Rightarrow> rule" where
  "parse_rule r = (case r of CHR ''-'' # k \<Rightarrow> (True, split_on CHR ''.'' k) | _ \<Rightarrow> (False, split_on CHR ''.'' r))"

definition camper_serialize_rules :: "string list" where
  "camper_serialize_rules = [''-signups.camper'']"

definition activity_serialize_rules :: "string list" where
  "activity_serialize_rules = [''-signups.activity'']"

definition signup_serialize_rules :: "string list" where
  "signup_serialize_rules = [''-camper.signups'', ''-activity.signups'']"

definition excluded :: "rule list \<Rightarrow> string \<Rightarrow> bool" where
  "excluded rs k \<longleftrightarrow> (True, [k]) \<in> set rs"

definition sub_rules :: "rule list \<Rightarrow> string \<Rightarrow> rule list" where
  "sub_rules rs k =
     concat (map (\<lambda>(b, p). case p of k' # q \<Rightarrow> if k' = k \<and> q \<noteq> [] then [(b, q)] else []
                                   | [] \<Rightarrow> []) rs)"

definition columns :: "rule list \<Rightarrow> (string \<times> pyval) list \<Rightarrow> (string \<times> pyval) list" where
  "columns rs kvs = filter (\<lambda>(k, _). \<not> excluded rs k) kvs"

definition camper_fields :: "camper_row \<Rightarrow> (string \<times> pyval) list" where
  "camper_fields c = [(''id'', PInt (c_id c)), (''name'', c_name c), (''age'', c_age c)]"

definition activity_fields :: "activity_row \<Rightarrow> (string \<times> pyval) list" where
  "activity_fields a = [(''id'', PInt (a_id a)), (''name'', a_name a), (''difficulty'', a_difficulty a)]"

definition signup_fields :: "signup_row \<Rightarrow> (string \<times> pyval) list" where
  "signup_fields x =
     [(''id'', PInt (s_id x)), (''time'', s_time x),
      (''camper_id'', s_camper_id x), (''activity_id'', s_activity_id x)]"

text \<open>A to-many relationship \<open>k\<close> and a to-one relationship \<open>k\<close> of an object
  being serialized under rules \<open>rs\<close>; \<open>ser\<close> serializes one related object.\<close>

definition rel_many ::
  "rule list \<Rightarrow> string \<Rightarrow> (rule list \<Rightarrow> 'a \<Rightarrow> pyval option) \<Rightarrow> 'a list \<Rightarrow> (string \<times> pyval) list option" where
  "rel_many rs k ser xs =
     (if excluded rs k then Some []
      else map_option (\<lambda>vs. [(k, PList vs)]) (those (map (ser (sub_rules rs k)) xs)))"

definition rel_one ::
  "rule list \<Rightarrow> string \<Rightarrow> (rule list \<Rightarrow> 'a \<Rightarrow> pyval option) \<Rightarrow> 'a option \<Rightarrow> (string \<times> pyval) list option" where
  "rel_one rs k ser x =
     (if excluded rs k then Some []
      else case x of None \<Rightarrow> Some [(k, PNone)]
                   | Some y \<Rightarrow> map_option (\<lambda>v. [(k, v)]) (ser (sub_rules rs k) y))"

fun to_dict :: "nat \<Rightarrow> db \<Rightarrow> rule list \<Rightarrow> obj \<Rightarrow> pyval option" where
  "to_dict 0 s rs x = None"
| "to_dict (Suc n) s rs (OCamper c) =
     (let rs' = rs @ map parse_rule camper_serialize_rules
      in map_option (\<lambda>rel. PDict (columns rs' (camper_fields c) @ rel))
           (rel_many rs' ''signups'' (\<lambda>r x. to_dict n s r (OSignup x)) (camper_signups s c)))"
| "to_dict (Suc n) s rs (OActivity a) =
     (let rs' = rs @ map parse_rule activity_serialize_rules
      in map_option (\<lambda>rel. PDict (columns rs' (activity_fields a) @ rel))
           (rel_many rs' ''signups'' (\<lambda>r x. to_dict n s r (OSignup x)) (activity_signups s a)))"
| "to_dict (Suc n) s rs (OSignup x) =
     (let rs' = rs @ map parse_rule signup_serialize_rules
      in case rel_one rs' ''camper'' (\<lambda>r c. to_dict n s r (OCamper c)) (signup_camper s x) of
           None \<Rightarrow> None
         | Some r1 \<Rightarrow>
             map_option (\<lambda>r2. PDict (columns rs' (signup_fields x) @ r1 @ r2))
               (rel_one rs' ''activity'' (\<lambda>r a. to_dict n s r (OActivity a)) (signup_activity s x)))"

definition recursion_budget :: nat where
  "recursion_budget = 100"

definition camper_detail_rules :: "rule list" where
  "camper_detail_rules = map parse_rule [''signups'', ''signups.activity'']"

text \<open>The views as the spec describes them, built explicitly.\<close>

definition camper_leaf :: "camper_row option \<Rightarrow> pyval" where
  "camper_leaf c = (case c of None \<Rightarrow> PNone | Some c \<Rightarrow> PDict (camper_fields c))"

definition activity_leaf :: "activity_row option \<Rightarrow> pyval" where
  "activity_leaf a = (case a of None \<Rightarrow> PNone | Some a \<Rightarrow> PDict (activity_fields a))"

definition camper_view :: "db \<Rightarrow> camper_row \<Rightarrow> pyval" where
  "camper_view s c =
     PDict (camper_fields c @
       [(''signups'', PList (map (\<lambda>x. PDict (signup_fields x @
                                    [(''activity'', activity_leaf (signup_activity s x))]))
                              (camper_signups s c)))])"

definition activity_view :: "db \<Rightarrow> activity_row \<Rightarrow> pyval" where
  "activity_view s a =
     PDict (activity_fields a @
       [(''signups'', PList (map (\<lambda>x. PDict (signup_fields x @
                                    [(''camper'', camper_leaf (signup_camper s x))]))
                              (activity_signups s a)))])"

definition signup_view :: "db \<Rightarrow> signup_row \<Rightarrow> pyval" where
  "signup_view s x =
     PDict (signup_fields x @
       [(''camper'', camper_leaf (signup_camper s x)),
        (''activity'', activity_leaf (signup_activity s x))])"

lemma camper_rules_eval: "map parse_rule camper_serialize_rules = [(True, [''signups'', ''camper''])]"
  by (simp add: camper_serialize_rules_def parse_rule_def)
lemma activity_rules_eval: "map parse_rule activity_serialize_rules = [(True, [''signups'', ''activity''])]"
  by (simp add: activity_serialize_rules_def parse_rule_def)
lemma signup_rules_eval: "map parse_rule signup_serialize_rules = [(True, [''camper'', ''signups'']), (True, [''activity'', ''signups''])]"
  by (simp add: signup_serialize_rules_def parse_rule_def)
lemma detail_rules_eval: "camper_detail_rules = [(False, [''signups'']), (False, [''signups'', ''activity''])]"
  by (simp add: camper_detail_rules_def parse_rule_def)

lemma to_dict_camper_leaf:
  "excluded rs ''signups'' \<Longrightarrow>
   to_dict (Suc n) s rs (OCamper c) = Some (PDict (columns (rs @ map parse_rule camper_serialize_rules) (camper_fields c)))"
  by (simp add: rel_many_def excluded_def)

lemma to_dict_activity_leaf:
  "excluded rs ''signups'' \<Longrightarrow>
   to_dict (Suc n) s rs (OActivity a) = Some (PDict (columns (rs @ map parse_rule activity_serialize_rules) (activity_fields a)))"
  by (simp add: rel_many_def excluded_def)

lemma sub_rules_append: "sub_rules (rs1 @ rs2) k = sub_rules rs1 k @ sub_rules rs2 k"
  by (simp add: sub_rules_def)

lemma excluded_append: "excluded (rs1 @ rs2) k \<longleftrightarrow> excluded rs1 k \<or> excluded rs2 k"
  by (auto simp: excluded_def)

lemma signup_sub_camper: "excluded (sub_rules (rs @ map parse_rule signup_serialize_rules) ''camper'') ''signups''"
  by (simp add: sub_rules_append excluded_append signup_rules_eval) (simp add: sub_rules_def excluded_def)

lemma signup_sub_activity: "excluded (sub_rules (rs @ map parse_rule signup_serialize_rules) ''activity'') ''signups''"
  by (simp add: sub_rules_append excluded_append signup_rules_eval) (simp add: sub_rules_def excluded_def)

lemma to_dict_signup_total: "to_dict (Suc (Suc n)) s rs (OSignup x) \<noteq> None"
  unfolding to_dict.simps(4) Let_def
  by (simp del: to_dict.simps add: rel_one_def to_dict_camper_leaf to_dict_activity_leaf signup_sub_camper signup_sub_activity
           split: option.splits)

lemma to_dict_signup_under_camper:
  "to_dict (Suc (Suc n)) s [(True, [''camper''])] (OSignup x) =
     Some (PDict (signup_fields x @ [(''activity'', activity_leaf (signup_activity s x))]))"
  unfolding to_dict.simps(4) Let_def
  by (cases "signup_activity s x")
     (simp_all del: to_dict.simps add: rel_one_def to_dict_activity_leaf signup_rules_eval activity_rules_eval
        sub_rules_def excluded_def columns_def signup_fields_def activity_fields_def activity_leaf_def)

lemma to_dict_camper_default:
  "to_dict (Suc (Suc (Suc n))) s [] (OCamper c) = Some (camper_view s c)"
proof -
  have "sub_rules ([] @ map parse_rule camper_serialize_rules) ''signups'' = [(True, [''camper''])]"
    by (simp add: camper_rules_eval sub_rules_def)
  then show ?thesis
    unfolding to_dict.simps(2) Let_def
    by (simp del: to_dict.simps add: rel_many_def camper_rules_eval excluded_def to_dict_signup_under_camper those_map_Some
          camper_view_def columns_def camper_fields_def)
qed

lemma to_dict_signup_under_camper_detail:
  "to_dict (Suc (Suc n)) s [(False, [''activity'']), (True, [''camper''])] (OSignup x) =
     Some (PDict (signup_fields x @ [(''activity'', activity_leaf (signup_activity s x))]))"
  unfolding to_dict.simps(4) Let_def
  by (cases "signup_activity s x")
     (simp_all del: to_dict.simps add: rel_one_def to_dict_activity_leaf signup_rules_eval activity_rules_eval
        sub_rules_def excluded_def columns_def signup_fields_def activity_fields_def activity_leaf_def)

lemma to_dict_signup_under_activity:
  "to_dict (Suc (Suc n)) s [(True, [''activity''])] (OSignup x) =
     Some (PDict (signup_fields x @ [(''camper'', camper_leaf (signup_camper s x))]))"
  unfolding to_dict.simps(4) Let_def
  by (cases "signup_camper s x")
     (simp_all del: to_dict.simps add: rel_one_def to_dict_camper_leaf signup_rules_eval camper_rules_eval
        sub_rules_def excluded_def columns_def signup_fields_def camper_fields_def camper_leaf_def)

lemma to_dict_signup_default:
  "to_dict (Suc (Suc n)) s [] (OSignup x) = Some (signup_view s x)"
  unfolding to_dict.simps(4) Let_def
  by (cases "signup_camper s x"; cases "signup_activity s x")
     (simp_all del: to_dict.simps add: rel_one_def to_dict_camper_leaf to_dict_activity_leaf
        signup_rules_eval camper_rules_eval activity_rules_eval signup_view_def
        sub_rules_def excluded_def columns_def signup_fields_def camper_fields_def activity_fields_def
        camper_leaf_def activity_leaf_def)

lemma to_dict_camper_detail:
  "to_dict (Suc (Suc (Suc n))) s camper_detail_rules (OCamper c) = Some (camper_view s c)"
proof -
  have "sub_rules (camper_detail_rules @ map parse_rule camper_serialize_rules) ''signups'' =
        [(False, [''activity'']), (True, [''camper''])]"
    by (simp add: detail_rules_eval camper_rules_eval sub_rules_def)
  then show ?thesis
    unfolding to_dict.simps(2) Let_def
    by (simp del: to_dict.simps add: rel_many_def detail_rules_eval camper_rules_eval excluded_def
          to_dict_signup_under_camper_detail those_map_Some camper_view_def columns_def camper_fields_def)
qed

lemma to_dict_activity_default:
  "to_dict (Suc (Suc (Suc n))) s [] (OActivity a) = Some (activity_view s a)"
proof -
  have "sub_rules ([] @ map parse_rule activity_serialize_rules) ''signups'' = [(True, [''activity''])]"
    by (simp add: activity_rules_eval sub_rules_def)
  then show ?thesis
    unfolding to_dict.simps(3) Let_def
    by (simp del: to_dict.simps add: rel_many_def activity_rules_eval excluded_def
          to_dict_signup_under_activity those_map_Some activity_view_def columns_def activity_fields_def)
qed

lemma signups_total:
  "those (map (\<lambda>x. to_dict (Suc (Suc n)) s r (OSignup x)) xs) \<noteq> None"
  by (rule those_map_not_None) (rule to_dict_signup_total)

lemma to_dict_camper_total: "to_dict (Suc (Suc (Suc n))) s rs (OCamper c) \<noteq> None"
  using signups_total [of n s _ "camper_signups s c"]
  unfolding to_dict.simps(2) Let_def
  by (auto simp del: to_dict.simps simp add: rel_many_def)

lemma to_dict_activity_total: "to_dict (Suc (Suc (Suc n))) s rs (OActivity a) \<noteq> None"
  using signups_total [of n s _ "activity_signups s a"]
  unfolding to_dict.simps(3) Let_def
  by (auto simp del: to_dict.simps simp add: rel_many_def)

lemma recursion_budget_Suc3: "recursion_budget = Suc (Suc (Suc 97))"
  by (simp add: recursion_budget_def)

text \<open>
  C13. Serialization terminates: under any rules passed by a caller, the
  serialization of any camper, activity or signup is complete within three
  levels of nesting, so it never reaches the recursion limit.  This is what
  the models' exclusion rules are for: each cycle
  camper\<open>\<rightarrow>\<close>signup\<open>\<rightarrow>\<close>camper and
  activity\<open>\<rightarrow>\<close>signup\<open>\<rightarrow>\<close>activity is cut.
\<close>

theorem to_dict_terminates:
  "to_dict (Suc (Suc (Suc n))) s rs x \<noteq> None"
proof (cases x)
  case (OCamper c)
  then show ?thesis by (simp only: to_dict_camper_total not_False_eq_True)
next
  case (OActivity a)
  then show ?thesis by (simp only: to_dict_activity_total not_False_eq_True)
next
  case (OSignup y)
  then show ?thesis using to_dict_signup_total [of "Suc n" s rs y] by simp
qed

lemma rel_many_mono:
  "rel_many rs k f xs = Some r \<Longrightarrow> (\<And>r' x v. x \<in> set xs \<Longrightarrow> f r' x = Some v \<Longrightarrow> g r' x = Some v) \<Longrightarrow>
   rel_many rs k g xs = Some r"
  by (auto simp: rel_many_def) (blast intro: those_map_mono)

lemma rel_one_mono:
  "rel_one rs k f x = Some r \<Longrightarrow> (\<And>r' y v. x = Some y \<Longrightarrow> f r' y = Some v \<Longrightarrow> g r' y = Some v) \<Longrightarrow>
   rel_one rs k g x = Some r"
  by (auto simp: rel_one_def split: option.splits)

lemma to_dict_mono: "to_dict n s rs x = Some v \<Longrightarrow> n \<le> m \<Longrightarrow> to_dict m s rs x = Some v"
proof (induction n arbitrary: m rs x v)
  case 0
  then show ?case by simp
next
  case (Suc n)
  from Suc.prems(2) obtain m' where m: "m = Suc m'" "n \<le> m'"
    by (cases m) auto
  have ih: "to_dict m' s r y = Some w" if "to_dict n s r y = Some w" for r y w
    using Suc.IH [OF that m(2)] .
  show ?case
  proof (cases x)
    case (OCamper c)
    let ?rs = "rs @ map parse_rule camper_serialize_rules"
    have "map_option (\<lambda>rel. PDict (columns ?rs (camper_fields c) @ rel))
            (rel_many ?rs ''signups'' (\<lambda>r x. to_dict n s r (OSignup x)) (camper_signups s c)) = Some v"
      using Suc.prems(1) unfolding OCamper to_dict.simps(2) Let_def .
    then obtain rel where r: "rel_many ?rs ''signups'' (\<lambda>r x. to_dict n s r (OSignup x)) (camper_signups s c) = Some rel"
      and v: "v = PDict (columns ?rs (camper_fields c) @ rel)"
      by blast
    from r have "rel_many ?rs ''signups'' (\<lambda>r x. to_dict m' s r (OSignup x)) (camper_signups s c) = Some rel"
      by (rule rel_many_mono) (rule ih)
    then show ?thesis
      unfolding m(1) OCamper to_dict.simps(2) Let_def by (simp del: to_dict.simps add: v)
  next
    case (OActivity a)
    let ?rs = "rs @ map parse_rule activity_serialize_rules"
    have "map_option (\<lambda>rel. PDict (columns ?rs (activity_fields a) @ rel))
            (rel_many ?rs ''signups'' (\<lambda>r x. to_dict n s r (OSignup x)) (activity_signups s a)) = Some v"
      using Suc.prems(1) unfolding OActivity to_dict.simps(3) Let_def .
    then obtain rel where r: "rel_many ?rs ''signups'' (\<lambda>r x. to_dict n s r (OSignup x)) (activity_signups s a) = Some rel"
      and v: "v = PDict (columns ?rs (activity_fields a) @ rel)"
      by blast
    from r have "rel_many ?rs ''signups'' (\<lambda>r x. to_dict m' s r (OSignup x)) (activity_signups s a) = Some rel"
      by (rule rel_many_mono) (rule ih)
    then show ?thesis
      unfolding m(1) OActivity to_dict.simps(3) Let_def by (simp del: to_dict.simps add: v)
  next
    case (OSignup y)
    let ?rs = "rs @ map parse_rule signup_serialize_rules"
    have h: "(case rel_one ?rs ''camper'' (\<lambda>r c. to_dict n s r (OCamper c)) (signup_camper s y) of
               None \<Rightarrow> None
             | Some r1 \<Rightarrow> map_option (\<lambda>r2. PDict (columns ?rs (signup_fields y) @ r1 @ r2))
                 (rel_one ?rs ''activity'' (\<lambda>r a. to_dict n s r (OActivity a)) (signup_activity s y))) = Some v"
      using Suc.prems(1) unfolding OSignup to_dict.simps(4) Let_def .
    then obtain r1 r2 where
      r1: "rel_one ?rs ''camper'' (\<lambda>r c. to_dict n s r (OCamper c)) (signup_camper s y) = Some r1" and
      r2: "rel_one ?rs ''activity'' (\<lambda>r a. to_dict n s r (OActivity a)) (signup_activity s y) = Some r2" and
      v: "v = PDict (columns ?rs (signup_fields y) @ r1 @ r2)"
      by (auto split: option.splits)
    from r1 have "rel_one ?rs ''camper'' (\<lambda>r c. to_dict m' s r (OCamper c)) (signup_camper s y) = Some r1"
      by (rule rel_one_mono) (rule ih)
    moreover from r2 have "rel_one ?rs ''activity'' (\<lambda>r a. to_dict m' s r (OActivity a)) (signup_activity s y) = Some r2"
      by (rule rel_one_mono) (rule ih)
    ultimately show ?thesis
      unfolding m(1) OSignup to_dict.simps(4) Let_def by (simp del: to_dict.simps add: v)
  qed
qed

text \<open>
  The recursion budget does not matter once it reaches three: every
  budget of at least three gives the same serialization, so the value standing
  for Python's recursion limit (\<open>recursion_budget\<close>) is immaterial.
\<close>

theorem to_dict_budget_independent: "3 \<le> n \<Longrightarrow> to_dict n s rs x = to_dict 3 s rs x"
  unfolding numeral_3_eq_3
proof -
  assume n: "Suc (Suc (Suc 0)) \<le> n"
  have "to_dict (Suc (Suc (Suc 0))) s rs x \<noteq> None"
    by (cases x) (simp_all only: to_dict_camper_total to_dict_activity_total to_dict_signup_total
        not_False_eq_True)
  then obtain v where v: "to_dict (Suc (Suc (Suc 0))) s rs x = Some v"
    by blast
  show "to_dict n s rs x = to_dict (Suc (Suc (Suc 0))) s rs x"
    by (simp only: to_dict_mono [OF v n] v)
qed

theorem to_dict_budget_independent_witness:
  "to_dict recursion_budget empty_db [] (OCamper \<lparr>c_id = 1, c_name = PStr ''Sam'', c_age = PInt 12\<rparr>) =
   to_dict 3 empty_db [] (OCamper \<lparr>c_id = 1, c_name = PStr ''Sam'', c_age = PInt 12\<rparr>)"
  by (rule to_dict_budget_independent) (simp add: recursion_budget_def)

end
