(* ===== verification/Routes.thy ===== *)
theory Routes
  imports Serializer
begin

text \<open>
  The endpoint handlers of \<open>src/server/routes.py\<close>, one definition per view
  function, each taking the request's data and the store and returning the
  response with the store after the request.  A handler's \<open>try\<close> block is an
  \<open>ebind\<close> chain over \<open>exc + _\<close>; its \<open>except\<close> clauses, which all call
  \<open>db.session.rollback()\<close> and \<open>validation_error_response()\<close>, are the
  \<open>Inl\<close> branch that returns the 400 response with the store as it was before
  the request.  Code outside a \<open>try\<close> that raises (\<open>request.get_json()\<close> on a
  body that is not JSON, \<open>data.get\<close> on a non-dict in \<open>create_signup\<close>, a key
  lookup whose binding overflows) ends the request with Flask's own error
  response and no write.  \<open>to_dict\<close> runs with \<open>recursion_budget\<close> as its
  fuel; where it runs inside a \<open>try\<close> after the commit, a failure would give
  400 with the write kept, as the code would.
\<close>

datatype rbody = RJson pyval | REmpty | RErrorPage string

record response =
  status :: nat
  body :: rbody

datatype req_body = JsonBody pyval | NotJson | MalformedJson

definition json_resp :: "nat \<Rightarrow> pyval \<Rightarrow> response" where
  "json_resp st v = \<lparr>status = st, body = RJson v\<rparr>"

definition error_page :: "nat \<Rightarrow> string \<Rightarrow> response" where
  "error_page st msg = \<lparr>status = st, body = RErrorPage msg\<rparr>"

definition internal_error :: response where
  "internal_error = error_page 500 ''Internal Server Error''"

definition validation_error_response :: response where
  "validation_error_response = json_resp 400 (PDict [(''errors'', PList [PStr ''validation errors''])])"

definition error_json :: "nat \<Rightarrow> string \<Rightarrow> response" where
  "error_json st msg = json_resp st (PDict [(''error'', PStr msg)])"

text \<open>\<open>request.get_json()\<close> (Flask 2.3 and later): 415 when the request is not
  declared JSON, 400 when its body does not parse; both raised, not caught.\<close>

definition get_json :: "req_body \<Rightarrow> response + pyval" where
  "get_json b = (case b of JsonBody v \<Rightarrow> Inr v
                         | NotJson \<Rightarrow> Inl (error_page 415 ''Unsupported Media Type'')
                         | MalformedJson \<Rightarrow> Inl (error_page 400 ''Bad Request''))"

definition list_campers :: "db \<Rightarrow> response \<times> db" where
  "list_campers s =
     (case those (map (\<lambda>c. to_dict recursion_budget s [] (OCamper c)) (campers s)) of
        None \<Rightarrow> (internal_error, s)
      | Some vs \<Rightarrow> (json_resp 200 (PList vs), s))"

definition get_camper_by_id :: "int \<Rightarrow> db \<Rightarrow> response \<times> db" where
  "get_camper_by_id i s =
     (case get_camper s (PInt i) of
        Inl e \<Rightarrow> (internal_error, s)
      | Inr None \<Rightarrow> (error_json 404 ''Camper not found'', s)
      | Inr (Some c) \<Rightarrow>
          (case to_dict recursion_budget s camper_detail_rules (OCamper c) of
             None \<Rightarrow> (internal_error, s)
           | Some v \<Rightarrow> (json_resp 200 v, s)))"

definition create_camper :: "req_body \<Rightarrow> db \<Rightarrow> response \<times> db" where
  "create_camper b s =
     (case get_json b of
        Inl r \<Rightarrow> (r, s)
      | Inr data \<Rightarrow>
          (case ebind (py_get data ''name'') (\<lambda>name.
                ebind (py_get data ''age'') (\<lambda>age.
                ebind (camper_init name age) (\<lambda>na. insert_camper na s))) of
             Inl e \<Rightarrow> (validation_error_response, s)
           | Inr (c, s') \<Rightarrow>
               (case to_dict recursion_budget s' [] (OCamper c) of
                  None \<Rightarrow> (validation_error_response, s')
                | Some v \<Rightarrow> (json_resp 201 v, s'))))"

text \<open>\<open>if k in data: camper.k = data[k]\<close>: the membership test, the
  subscription and the validation hook of the assignment.\<close>

definition assign_if_present ::
  "string \<Rightarrow> (pyval \<Rightarrow> exc + pyval) \<Rightarrow> pyval \<Rightarrow> exc + pyval option" where
  "assign_if_present k validate data =
     ebind (py_contains k data) (\<lambda>present.
       if present then ebind (py_getitem data k) (\<lambda>v. ebind (validate v) (\<lambda>v'. Inr (Some v')))
       else Inr None)"

definition updated_camper :: "camper_row \<Rightarrow> pyval option \<Rightarrow> pyval option \<Rightarrow> camper_row" where
  "updated_camper c nn na =
     c\<lparr>c_name := set_column text_affinity nn (c_name c), c_age := set_column int_affinity na (c_age c)\<rparr>"

definition update_camper :: "int \<Rightarrow> req_body \<Rightarrow> db \<Rightarrow> response \<times> db" where
  "update_camper i b s =
     (case get_camper s (PInt i) of
        Inl e \<Rightarrow> (internal_error, s)
      | Inr None \<Rightarrow> (error_json 404 ''Camper not found'', s)
      | Inr (Some c) \<Rightarrow>
          (case get_json b of
             Inl r \<Rightarrow> (r, s)
           | Inr data \<Rightarrow>
               (case ebind (assign_if_present ''name'' validate_name data) (\<lambda>nn.
                     ebind (assign_if_present ''age'' validate_age data) (\<lambda>na.
                     ebind (update_camper_row (c_id c) nn na s) (\<lambda>s'. Inr (nn, na, s')))) of
                  Inl e \<Rightarrow> (validation_error_response, s)
                | Inr (nn, na, s') \<Rightarrow>
                    (case to_dict recursion_budget s' [] (OCamper (updated_camper c nn na)) of
                       None \<Rightarrow> (validation_error_response, s')
                     | Some v \<Rightarrow> (json_resp 202 v, s')))))"

definition list_activities :: "db \<Rightarrow> response \<times> db" where
  "list_activities s =
     (case those (map (\<lambda>a. to_dict recursion_budget s [] (OActivity a)) (activities s)) of
        None \<Rightarrow> (internal_error, s)
      | Some vs \<Rightarrow> (json_resp 200 (PList vs), s))"

definition delete_activity :: "int \<Rightarrow> db \<Rightarrow> response \<times> db" where
  "delete_activity i s =
     (case get_activity s (PInt i) of
        Inl e \<Rightarrow> (internal_error, s)
      | Inr None \<Rightarrow> (error_json 404 ''Activity not found'', s)
      | Inr (Some a) \<Rightarrow> (\<lparr>status = 204, body = REmpty\<rparr>, delete_activity_cascade (a_id a) s))"

definition create_signup :: "req_body \<Rightarrow> db \<Rightarrow> response \<times> db" where
  "create_signup b s =
     (case get_json b of
        Inl r \<Rightarrow> (r, s)
      | Inr data \<Rightarrow>
          (case ebind (py_get data ''camper_id'') (\<lambda>cid.
                ebind (py_get data ''activity_id'') (\<lambda>aid.
                ebind (py_get data ''time'') (\<lambda>t. Inr (cid, aid, t)))) of
             Inl e \<Rightarrow> (internal_error, s)
           | Inr (cid, aid, t) \<Rightarrow>
               (case get_camper s cid of
                  Inl e \<Rightarrow> (internal_error, s)
                | Inr None \<Rightarrow> (validation_error_response, s)
                | Inr (Some c) \<Rightarrow>
                    (case get_activity s aid of
                       Inl e \<Rightarrow> (internal_error, s)
                     | Inr None \<Rightarrow> (validation_error_response, s)
                     | Inr (Some a) \<Rightarrow>
                         (case ebind (signup_init cid aid t) (\<lambda>r. insert_signup r s) of
                            Inl e \<Rightarrow> (validation_error_response, s)
                          | Inr (x, s') \<Rightarrow>
                              (case to_dict recursion_budget s' [] (OSignup x) of
                                 None \<Rightarrow> (validation_error_response, s')
                               | Some v \<Rightarrow> (json_resp 201 v, s')))))))"

definition not_found :: response where
  "not_found = error_json 404 ''Resource not found''"

text \<open>A sample store used by the witnesses: one camper, two activities, one
  signup of the camper for each activity.\<close>

definition sam :: camper_row where
  "sam = \<lparr>c_id = 1, c_name = PStr ''Sam'', c_age = PInt 12\<rparr>"

definition canoeing :: activity_row where
  "canoeing = \<lparr>a_id = 1, a_name = PStr ''Canoeing'', a_difficulty = PInt 3\<rparr>"

definition archery :: activity_row where
  "archery = \<lparr>a_id = 2, a_name = PStr ''Archery'', a_difficulty = PInt 2\<rparr>"

definition camp_db :: db where
  "camp_db =
     \<lparr>campers = [sam], activities = [canoeing, archery],
      signups = [\<lparr>s_id = 1, s_time = PInt 9, s_camper_id = PInt 1, s_activity_id = PInt 1\<rparr>,
                 \<lparr>s_id = 2, s_time = PInt 14, s_camper_id = PInt 1, s_activity_id = PInt 2\<rparr>]\<rparr>"

lemma to_dict_budget_camper: "to_dict recursion_budget s [] (OCamper c) = Some (camper_view s c)"
  by (simp only: recursion_budget_Suc3 to_dict_camper_default)
lemma to_dict_budget_detail: "to_dict recursion_budget s camper_detail_rules (OCamper c) = Some (camper_view s c)"
  by (simp only: recursion_budget_Suc3 to_dict_camper_detail)
lemma to_dict_budget_activity: "to_dict recursion_budget s [] (OActivity a) = Some (activity_view s a)"
  by (simp only: recursion_budget_Suc3 to_dict_activity_default)
lemma to_dict_budget_signup: "to_dict recursion_budget s [] (OSignup x) = Some (signup_view s x)"
  by (simp only: recursion_budget_Suc3 to_dict_signup_default)
lemmas to_dict_budget = to_dict_budget_camper to_dict_budget_detail to_dict_budget_activity to_dict_budget_signup

lemma get_camper_int: "int64_ok i \<Longrightarrow> get_camper s (PInt i) = Inr (find (\<lambda>c. c_id c = i) (campers s))"
  by (simp add: get_camper_def)
lemma get_activity_int: "int64_ok i \<Longrightarrow> get_activity s (PInt i) = Inr (find (\<lambda>a. a_id a = i) (activities s))"
  by (simp add: get_activity_def)

lemma assign_if_present_cases:
  "(\<exists>e. assign_if_present k f d = Inl e) \<or> (\<exists>v. assign_if_present k f d = Inr v)"
  by (cases "assign_if_present k f d") auto

lemma assign_if_present_absent:
  "map_of kvs k = None \<Longrightarrow> assign_if_present k f (PDict kvs) = Inr None"
  by (simp add: assign_if_present_def)

lemma assign_if_present_present:
  "map_of kvs k = Some v \<Longrightarrow> assign_if_present k f (PDict kvs) = ebind (f v) (\<lambda>v'. Inr (Some v'))"
  by (simp add: assign_if_present_def)

text \<open>
  C8. PATCH /campers/<id> on an existing camper with an \<open>age\<close> field that is not within 8..18 answers 400 and leaves the store unchanged, whatever the \<open>name\<close> field holds.
\<close>

lemma update_camper_rejects_age:
  assumes "get_camper s (PInt i) = Inr (Some c)" "map_of kvs ''age'' = Some age" "\<not> age_ok age"
  shows "update_camper i (JsonBody (PDict kvs)) s = (validation_error_response, s)"
proof -
  obtain e where age: "validate_age age = Inl e"
    using assms(3) by (cases "validate_age age") (auto simp: validate_age_Inr)
  show ?thesis
  proof (cases "assign_if_present ''name'' validate_name (PDict kvs)")
    case (Inl e')
    then show ?thesis using assms(1) by (simp add: update_camper_def get_json_def)
  next
    case (Inr nn)
    then show ?thesis using assms(1,2) age
      by (simp add: update_camper_def get_json_def assign_if_present_present)
  qed
qed

text \<open>
  C9. A partial PATCH carrying only a valid \<open>age\<close> answers 202 and changes only that camper's age (stored with INTEGER affinity): the name is neither re-validated nor changed, and the other rows are untouched; the response is the camper's serialization, which includes its signups.
\<close>

lemma update_camper_age_only:
  assumes "get_camper s (PInt i) = Inr (Some c)" "map_of kvs ''name'' = None"
    and "map_of kvs ''age'' = Some age" "age_ok age"
  shows "update_camper i (JsonBody (PDict kvs)) s =
           (let s' = s\<lparr>campers := map (\<lambda>d. if c_id d = c_id c then d\<lparr>c_age := int_affinity age\<rparr> else d) (campers s)\<rparr>
            in (json_resp 202 (camper_view s' (c\<lparr>c_age := int_affinity age\<rparr>)), s'))"
proof -
  have b: "bind_not_null age = Inr age"
    using assms(4) by (cases age) (auto simp: age_ok_def bind_not_null_def int64_ok_def)
  have v: "validate_age age = Inr age" using assms(4) by (simp add: validate_age_Inr)
  show ?thesis using assms
    by (simp add: b v update_camper_def get_json_def assign_if_present_present assign_if_present_absent
        update_camper_row_def check_column_def updated_camper_def to_dict_budget Let_def cong: if_cong)
qed

lemma delete_activity_found:
  assumes "get_activity s (PInt i) = Inr (Some a)"
  shows "delete_activity i s = (\<lparr>status = 204, body = REmpty\<rparr>, delete_activity_cascade i s)"
proof -
  have "a_id a = i" using get_activity_Some [OF assms] by (auto split: if_splits)
  then show ?thesis using assms by (simp add: delete_activity_def)
qed

text \<open>
  C14. POST /signups whose JSON body is not an object (a list, a string, a number, null) fails with 500 Internal Server Error, not the uniform 400: \<open>data.get\<close> is called outside the \<open>try\<close> block; the store is unchanged.
\<close>

lemma create_signup_non_dict:
  "\<forall>kvs. data \<noteq> PDict kvs \<Longrightarrow> create_signup (JsonBody data) s = (internal_error, s)"
  by (cases data) (simp_all add: create_signup_def get_json_def)

lemma pk_identity_invalid:
  "(\<exists>xs. v = PList xs \<and> length xs \<noteq> 1) \<or> (\<exists>kvs. v = PDict kvs \<and> map fst kvs \<noteq> [''id'']) \<Longrightarrow>
   pk_identity v = Inl InvalidRequestError"
  by (auto split: list.splits)

text \<open>
  C24. POST /signups whose \<open>camper_id\<close> is a JSON array that does not hold
  exactly one value, or a JSON object whose keys are not exactly \<open>id\<close>,
  fails with 500 Internal Server Error, not the uniform 400:
  \<open>Camper.query.get\<close> raises InvalidRequestError before the \<open>try\<close> block;
  the store is unchanged.
\<close>

lemma create_signup_bad_identity:
  assumes "py_get data ''camper_id'' = Inr cid"
    and "(\<exists>xs. cid = PList xs \<and> length xs \<noteq> 1) \<or> (\<exists>kvs. cid = PDict kvs \<and> map fst kvs \<noteq> [''id''])"
  shows "create_signup (JsonBody data) s = (internal_error, s)"
proof -
  obtain kvs where "data = PDict kvs" using assms(1) by (cases data) auto
  moreover have "get_camper s cid = Inl InvalidRequestError"
    using pk_identity_invalid [OF assms(2)] by (simp add: get_camper_def)
  ultimately show ?thesis using assms(1) by (simp add: create_signup_def get_json_def)
qed


lemma signup_init_Inl: "\<not> time_ok t \<Longrightarrow> \<exists>e. signup_init cid aid t = Inl e"
  using signup_init_cases [of cid aid t] signup_init_Inr [of cid aid t "(cid, aid, t)"] by auto

text \<open>
  C5. POST /signups with existing camper and activity but a \<open>time\<close> that is not a number within 0..23 answers 400 and no row is written.
\<close>

lemma create_signup_bad_time:
  assumes "py_get data ''camper_id'' = Inr cid" "py_get data ''activity_id'' = Inr aid"
    and "py_get data ''time'' = Inr t" "\<not> time_ok t"
    and "get_camper s cid = Inr (Some c)" "get_activity s aid = Inr (Some a)"
  shows "create_signup (JsonBody data) s = (validation_error_response, s)"
proof -
  obtain e where e: "signup_init cid aid t = Inl e" using signup_init_Inl [OF assms(4)] by blast
  obtain kvs where "data = PDict kvs" using assms(1) by (cases data) auto
  then show ?thesis using assms(1-3,5,6) e by (simp add: create_signup_def get_json_def)
qed

lemma pk_identity_bind:
  "pk_identity v = Inr (Some k) \<Longrightarrow> bind_param v = Inr v \<Longrightarrow> bind_not_null v = Inr v"
  by (cases v) (auto simp: bind_not_null_def split: if_splits option.splits)

lemma bind_not_null_param: "bind_not_null v = Inr b \<Longrightarrow> bind_param v = Inr b"
  by (auto simp: bind_not_null_def ebind_eq_Inr split: if_splits)

lemma num_small_bind: "py_num v = Some q \<Longrightarrow> 0 \<le> q \<Longrightarrow> q \<le> 23 \<Longrightarrow> bind_not_null v = Inr v"
  by (cases v) (auto simp: bind_not_null_def int64_ok_def)

lemma time_ok_bind: "time_ok v \<Longrightarrow> bind_not_null v = Inr v"
  by (auto simp: time_ok_def intro: num_small_bind split: option.splits)


lemma find_PInt_eq: "find (\<lambda>c. PInt (f c) = PInt k) xs = find (\<lambda>c. f c = k) xs"
  by simp

text \<open>
  C12. POST /signups with existing camper and activity, ids that SQLite can bind (not a list or dict, which \<open>query.get\<close> may still read as an identity), and a valid time appends exactly one signup row (next row id, values stored with INTEGER affinity) and answers 201 with the signup's columns, the nested camper and the nested activity, neither of which nests a \<open>signups\<close> list back.
\<close>

lemma create_signup_success:
  assumes d: "py_get data ''camper_id'' = Inr cid" "py_get data ''activity_id'' = Inr aid"
      "py_get data ''time'' = Inr t"
    and c: "get_camper s cid = Inr (Some c)" and a: "get_activity s aid = Inr (Some a)"
    and t: "time_ok t" and b: "bind_param cid = Inr cid" "bind_param aid = Inr aid"
  shows "create_signup (JsonBody data) s =
          (json_resp 201 (PDict (signup_fields (new_signup s (cid, aid, t)) @
              [(''camper'', PDict (camper_fields c)), (''activity'', PDict (activity_fields a))])),
           s\<lparr>signups := signups s @ [new_signup s (cid, aid, t)]\<rparr>)"
proof -
  obtain kvs where kvs: "data = PDict kvs" using d(1) by (cases data) auto
  from c have kc: "pk_identity cid = Inr (Some (c_id c))" and fc: "find (\<lambda>d. c_id d = c_id c) (campers s) = Some c"
    by (auto simp: get_camper_def ebind_eq_Inr split: option.splits dest: find_Some_pred)
  from a have ka: "pk_identity aid = Inr (Some (a_id a))" and fa: "find (\<lambda>d. a_id d = a_id a) (activities s) = Some a"
    by (auto simp: get_activity_def ebind_eq_Inr split: option.splits dest: find_Some_pred)
  let ?x = "new_signup s (cid, aid, t)"
  let ?s' = "s\<lparr>signups := signups s @ [?x]\<rparr>"
  have ins: "ebind (signup_init cid aid t) (\<lambda>r. insert_signup r s) = Inr (?x, ?s')"
  proof -
    show ?thesis using t
      by (simp add: pk_identity_bind [OF kc b(1)] pk_identity_bind [OF ka b(2)] time_ok_bind [OF t]
          signup_init_def insert_signup_def Let_def)
  qed
  have sc: "signup_camper ?s' ?x = Some c"
    using pk_identity_affinity [OF kc b(1)] fc by (simp add: signup_camper_def new_signup_def)
  have sa: "signup_activity ?s' ?x = Some a"
    using pk_identity_affinity [OF ka b(2)] fa by (simp add: signup_activity_def new_signup_def)
  show ?thesis
    using d c a ins sc sa kvs
    by (simp add: create_signup_def get_json_def to_dict_budget signup_view_def camper_leaf_def activity_leaf_def)
qed

lemma camper_init_Inl: "\<not> (py_truthy name \<and> age_ok age) \<Longrightarrow> \<exists>e. camper_init name age = Inl e"
  using camper_init_cases [of name age] camper_init_Inr [of name age "(name, age)"] by auto

text \<open>
  C3. POST /campers with a JSON object whose \<open>name\<close> is falsy or whose
  \<open>age\<close> is not a number within 8..18 answers 400 with the uniform error body,
  and the store is unchanged.
\<close>

lemma create_camper_rejects_invalid:
  assumes "py_get data ''name'' = Inr name" "py_get data ''age'' = Inr age"
    and "\<not> py_truthy name \<or> \<not> age_ok age"
  shows "create_camper (JsonBody data) s = (validation_error_response, s)"
proof -
  obtain e where "camper_init name age = Inl e" using assms(3) camper_init_Inl by blast
  then show ?thesis using assms(1,2) by (simp add: create_camper_def get_json_def)
qed


text \<open>
  C10. GET /campers answers 200 with the list of every camper in row order,
  each serialized with its \<open>signups\<close>, each signup with its nested activity:
  the default view of \<open>Camper\<close> does not exclude \<open>signups\<close>.
\<close>

lemma list_campers_views: "list_campers s = (json_resp 200 (PList (map (camper_view s) (campers s))), s)"
  by (simp add: list_campers_def to_dict_budget those_map_Some)

text \<open>
  C20. GET /activities answers 200 with every activity in row order, each
  serialized with its \<open>signups\<close>, each signup with its nested camper (the
  camper without signups): the default view of \<open>Activity\<close> does not exclude
  the relationship either.
\<close>

lemma list_activities_views:
  "list_activities s = (json_resp 200 (PList (map (activity_view s) (activities s))), s)"
  by (simp add: list_activities_def to_dict_budget those_map_Some)

lemma json_status [simp]: "status (json_resp st v) = st" by (simp add: json_resp_def)

lemma create_camper_atomic: "400 \<le> status (fst (create_camper b s)) \<Longrightarrow> snd (create_camper b s) = s"
  by (auto simp: create_camper_def to_dict_budget split: sum.splits prod.splits)

lemma update_camper_atomic: "400 \<le> status (fst (update_camper i b s)) \<Longrightarrow> snd (update_camper i b s) = s"
  by (auto simp: update_camper_def to_dict_budget split: sum.splits prod.splits option.splits)

lemma create_signup_atomic: "400 \<le> status (fst (create_signup b s)) \<Longrightarrow> snd (create_signup b s) = s"
  by (auto simp: create_signup_def to_dict_budget split: sum.splits prod.splits option.splits)

lemma delete_activity_atomic: "400 \<le> status (fst (delete_activity i s)) \<Longrightarrow> snd (delete_activity i s) = s"
  by (auto simp: delete_activity_def split: sum.splits option.splits)

lemma assign_name_truthy:
  "assign_if_present k validate_name d = Inr nn \<Longrightarrow> pred_option py_truthy nn"
  by (auto simp: assign_if_present_def ebind_eq_Inr validate_name_Inr split: if_splits)

lemma assign_age_ok:
  "assign_if_present k validate_age d = Inr na \<Longrightarrow> pred_option age_ok na"
  by (auto simp: assign_if_present_def ebind_eq_Inr validate_age_Inr split: if_splits)

lemma create_camper_wf: "wf_db s \<Longrightarrow> wf_db (snd (create_camper b s))"
  by (auto simp: create_camper_def ebind_eq_Inr camper_init_Inr to_dict_budget
      split: sum.splits prod.splits option.splits)
     (metis fst_conv snd_conv wf_insert_camper)+

lemma update_camper_wf: "wf_db s \<Longrightarrow> wf_db (snd (update_camper i b s))"
  by (auto simp: update_camper_def ebind_eq_Inr to_dict_budget
      intro: wf_update_camper_row dest: assign_name_truthy assign_age_ok
      split: sum.splits prod.splits option.splits)

lemma delete_activity_wf: "wf_db s \<Longrightarrow> wf_db (snd (delete_activity i s))"
  by (auto simp: delete_activity_def wf_delete_activity_cascade split: sum.splits option.splits)

lemma found_camper_ref:
  "get_camper s v = Inr (Some c) \<Longrightarrow> bind_not_null v = Inr b \<Longrightarrow>
   int_affinity v \<in> PInt ` set (map c_id (campers s))"
  using get_camper_Some pk_identity_affinity bind_not_null_param by fastforce

lemma found_activity_ref:
  "get_activity s v = Inr (Some a) \<Longrightarrow> bind_not_null v = Inr b \<Longrightarrow>
   int_affinity v \<in> PInt ` set (map a_id (activities s))"
  using get_activity_Some pk_identity_affinity bind_not_null_param by fastforce

lemma wf_insert_found_signup:
  assumes "wf_db s" "time_ok t" "get_camper s cid = Inr (Some c)" "get_activity s aid = Inr (Some a)"
    and ins: "insert_signup (cid, aid, t) s = Inr (x, s')"
  shows "wf_db s'"
  using insert_signup_binds [OF ins] assms
  by (blast intro: wf_insert_signup found_camper_ref found_activity_ref)

lemma create_signup_wf: "wf_db s \<Longrightarrow> wf_db (snd (create_signup b s))"
  by (auto simp: create_signup_def ebind_eq_Inr signup_init_Inr to_dict_budget
      intro: wf_insert_found_signup split: sum.splits prod.splits option.splits)

lemma delete_activity_id: "get_activity s (PInt i) = Inr (Some a) \<Longrightarrow> a_id a = i"
  using get_activity_Some by (fastforce split: if_splits)

text \<open>
  C7. DELETE /activities/<id> on an existing activity answers 204 with an
  empty body, removes the activity and exactly the signups whose
  \<open>activity_id\<close> is that id, keeps every other signup in order, and leaves the
  campers untouched.
\<close>

lemma delete_activity_removes_dependents:
  assumes "get_activity s (PInt i) = Inr (Some a)"
  shows "fst (delete_activity i s) = \<lparr>status = 204, body = REmpty\<rparr> \<and>
         signups (snd (delete_activity i s)) = filter (\<lambda>x. s_activity_id x \<noteq> PInt i) (signups s) \<and>
         activities (snd (delete_activity i s)) = filter (\<lambda>b. a_id b \<noteq> i) (activities s) \<and>
         campers (snd (delete_activity i s)) = campers s"
  using delete_activity_found [OF assms] by (simp add: delete_activity_cascade_def)

text \<open>
  C11. GET /campers/<id> of an existing camper answers 200 with the detail
  view: the camper's columns and its signups, each with its activity nested
  and no camper nested back.
\<close>

lemma get_camper_by_id_view:
  "get_camper s (PInt i) = Inr (Some c) \<Longrightarrow> get_camper_by_id i s = (json_resp 200 (camper_view s c), s)"
  by (simp add: get_camper_by_id_def to_dict_budget)

text \<open>
  C16. GET /campers/<id> for an id within SQLite's 64-bit range that no
  camper has answers 404 with \<open>{"error": "Camper not found"}\<close>.
\<close>

lemma get_camper_by_id_missing:
  "int64_ok i \<Longrightarrow> i \<notin> c_id ` set (campers s) \<Longrightarrow>
   get_camper_by_id i s = (error_json 404 ''Camper not found'', s)"
proof -
  assume "int64_ok i" "i \<notin> c_id ` set (campers s)"
  moreover have "find (\<lambda>c. c_id c = i) (campers s) = None"
    using calculation(2) by (auto simp: find_None_iff)
  ultimately show ?thesis by (simp add: get_camper_by_id_def get_camper_int)
qed

lemma camp_db_sam: "get_camper camp_db (PInt 1) = Inr (Some sam)"
  by code_simp

lemma camp_db_canoeing: "get_activity camp_db (PInt 1) = Inr (Some canoeing)"
  by code_simp

lemma camp_db_archery: "get_activity camp_db (PInt 2) = Inr (Some archery)"
  by code_simp

theorem create_camper_rejects_invalid_witness:
  "create_camper (JsonBody (PDict [(''name'', PStr ''Sam''), (''age'', PInt 25)])) camp_db =
   (validation_error_response, camp_db)"
  by (rule create_camper_rejects_invalid) code_simp+


theorem create_signup_bad_time_witness:
  "create_signup (JsonBody (PDict [(''camper_id'', PInt 1), (''activity_id'', PInt 1), (''time'', PInt 25)])) camp_db =
   (validation_error_response, camp_db)"
  by (rule create_signup_bad_time [OF _ _ _ _ camp_db_sam camp_db_canoeing]) code_simp+


theorem delete_activity_removes_dependents_witness:
  "fst (delete_activity 1 camp_db) = \<lparr>status = 204, body = REmpty\<rparr> \<and>
   signups (snd (delete_activity 1 camp_db)) = filter (\<lambda>x. s_activity_id x \<noteq> PInt 1) (signups camp_db) \<and>
   activities (snd (delete_activity 1 camp_db)) = filter (\<lambda>b. a_id b \<noteq> 1) (activities camp_db) \<and>
   campers (snd (delete_activity 1 camp_db)) = campers camp_db"
  by (rule delete_activity_removes_dependents [OF camp_db_canoeing])

theorem update_camper_rejects_age_witness:
  "update_camper 1 (JsonBody (PDict [(''name'', PStr ''Sam''), (''age'', PInt 25)])) camp_db =
   (validation_error_response, camp_db)"
  by (rule update_camper_rejects_age [OF camp_db_sam]) code_simp+

theorem update_camper_age_only_witness:
  "update_camper 1 (JsonBody (PDict [(''age'', PInt 13)])) camp_db =
     (let s' = camp_db\<lparr>campers := map (\<lambda>d. if c_id d = c_id sam then d\<lparr>c_age := int_affinity (PInt 13)\<rparr> else d)
                                        (campers camp_db)\<rparr>
      in (json_resp 202 (camper_view s' (sam\<lparr>c_age := int_affinity (PInt 13)\<rparr>)), s'))"
  by (rule update_camper_age_only [OF camp_db_sam]) (simp_all add: age_ok_def)

theorem get_camper_by_id_view_witness:
  "get_camper_by_id 1 camp_db = (json_resp 200 (camper_view camp_db sam), camp_db)"
  by (rule get_camper_by_id_view [OF camp_db_sam])

theorem get_camper_by_id_missing_witness:
  "get_camper_by_id 7 camp_db = (error_json 404 ''Camper not found'', camp_db)"
  by (rule get_camper_by_id_missing) (simp_all add: int64_ok_def camp_db_def sam_def)

theorem create_signup_success_witness:
  "create_signup (JsonBody (PDict [(''camper_id'', PInt 1), (''activity_id'', PInt 2), (''time'', PInt 10)])) camp_db =
     (json_resp 201 (PDict (signup_fields (new_signup camp_db (PInt 1, PInt 2, PInt 10)) @
         [(''camper'', PDict (camper_fields sam)), (''activity'', PDict (activity_fields archery))])),
      camp_db\<lparr>signups := signups camp_db @ [new_signup camp_db (PInt 1, PInt 2, PInt 10)]\<rparr>)"
  by (rule create_signup_success [OF _ _ _ camp_db_sam camp_db_archery]) (simp_all add: time_ok_def int64_ok_def)

theorem create_signup_non_dict_witness:
  "create_signup (JsonBody (PList [PStr ''camper_id''])) camp_db = (internal_error, camp_db)"
  by (rule create_signup_non_dict) simp

theorem create_signup_bad_identity_witness:
  "create_signup (JsonBody (PDict [(''camper_id'', PList []), (''activity_id'', PInt 1), (''time'', PInt 9)])) camp_db =
     (internal_error, camp_db)"
  by (rule create_signup_bad_identity) auto

lemma update_camper_row_unchanged: "update_camper_row i None None s = Inr s"
  by (simp add: update_camper_row_def check_column_def cong: if_cong)

lemma updated_camper_unchanged: "updated_camper c None None = c"
  by (simp add: updated_camper_def)

text \<open>
  C21. PATCH /campers/<id> with a JSON array body: \<open>'name' in data\<close> and
  \<open>'age' in data\<close> test list membership, so an array holding neither string
  assigns nothing, commits, and answers 202 with the unchanged camper; the
  malformed body is not rejected.
\<close>

lemma update_camper_list_body:
  assumes "get_camper s (PInt i) = Inr (Some c)" "PStr ''name'' \<notin> set xs" "PStr ''age'' \<notin> set xs"
  shows "update_camper i (JsonBody (PList xs)) s = (json_resp 202 (camper_view s c), s)"
  using assms
  by (simp add: update_camper_def get_json_def assign_if_present_def update_camper_row_unchanged
      updated_camper_unchanged to_dict_budget)

lemma update_camper_list_body_witness:
  "get_camper camp_db (PInt 1) = Inr (Some sam) \<and> PStr ''name'' \<notin> set [PInt 3, PStr ''x''] \<and>
   PStr ''age'' \<notin> set [PInt 3, PStr ''x''] \<and>
   update_camper 1 (JsonBody (PList [PInt 3, PStr ''x''])) camp_db = (json_resp 202 (camper_view camp_db sam), camp_db)"
  using update_camper_list_body [of camp_db 1 sam "[PInt 3, PStr ''x'']"] by code_simp

text \<open>
  C23. An id beyond SQLite's signed 64-bit range in GET or PATCH
  /campers/<id> or DELETE /activities/<id>: \<open>Model.query.get(id)\<close> raises
  OverflowError while binding the key, outside any \<open>try\<close>, so the answer
  is a 500 (not the entity 404) and the store is unchanged.
\<close>

lemma ids_beyond_int64_500:
  assumes "\<not> int64_ok i"
  shows "get_camper_by_id i s = (internal_error, s) \<and> update_camper i b s = (internal_error, s) \<and>
         delete_activity i s = (internal_error, s)"
  using assms by (simp add: get_camper_by_id_def update_camper_def delete_activity_def get_camper_def get_activity_def)

lemma ids_beyond_int64_500_witness:
  "\<not> int64_ok (2 ^ 63) \<and> get_camper_by_id (2 ^ 63) camp_db = (internal_error, camp_db) \<and>
   update_camper (2 ^ 63) NotJson camp_db = (internal_error, camp_db) \<and>
   delete_activity (2 ^ 63) camp_db = (internal_error, camp_db)"
  using ids_beyond_int64_500 [of "2 ^ 63" camp_db NotJson] by (simp add: int64_ok_def)

end
