(* ===== verification/App.thy ===== *)
theory App
  imports Routes
begin

text \<open>
  The application: \<open>create_app()\<close> (\<open>src/server/__init__.py\<close>) builds the
  Flask app and \<open>src/server/app.py\<close> registers the blueprint \<open>api_bp\<close> of
  \<open>src/server/routes.py\<close> (URL prefix \<open>/\<close>), so the URL map holds the seven
  rules of the blueprint, Flask's \<open>/static/<path:filename>\<close> rule, and the
  app-wide 404 handler \<open>not_found\<close>.  \<open>handle\<close> is one request: Werkzeug
  matches the path against the rules (\<open><int:id>\<close> accepts a non-empty string
  of decimal digits, strict slashes; leading slashes are dropped, as
  \<open>MapAdapter.match\<close> does from Werkzeug 2.2, the version Flask 2.3
  requires).  When no rule matches, Werkzeug retries with runs of slashes
  merged (\<open>merge_slashes\<close>) and answers a match with a 308 redirect.  It
  answers 404 through the handler when no rule matches either path, 405 when
  rules match the path but none allows the method, answers OPTIONS itself, treats HEAD as GET without a body, and
  otherwise calls the view function.

  The service as a whole is the step relation of requests on the store:
  \<open>reachable\<close> holds of the empty store and of every store a request leads
  to from a reachable one.  The store invariant \<open>wf_db\<close> holds in every
  reachable store (rule induction), and every response with an error status
  leaves the store as it was.
\<close>

datatype http_method = GET | HEAD | POST | PUT | PATCH | DELETE | OPTIONS

record request =
  req_method :: http_method
  path :: string
  payload :: req_body

datatype endpoint =
    EListCampers
  | EGetCamper int
  | ECreateCamper
  | EUpdateCamper int
  | EListActivities
  | EDeleteActivity int
  | ECreateSignup
  | EStatic

definition path_segments :: "string \<Rightarrow> string list" where
  "path_segments p = split_on CHR ''/'' (dropWhile (\<lambda>c. c = CHR ''/'') p)"

text \<open>\<open>re.sub("/+", "/", path)\<close> of Werkzeug's \<open>merge_slashes\<close> on the
  segments after the leading slash: empty inner segments disappear, a
  trailing slash stays.\<close>

definition merge_slashes :: "string list \<Rightarrow> string list" where
  "merge_slashes segs =
     (if segs = [] then [] else filter (\<lambda>x. x \<noteq> []) (butlast segs) @ [last segs])"

text \<open>The rules whose path pattern matches, with the methods each allows.\<close>

definition url_rules :: "string list \<Rightarrow> (http_method list \<times> endpoint) list" where
  "url_rules segs =
     (if segs = [''campers''] then [([GET], EListCampers), ([POST], ECreateCamper)]
      else if segs = [''activities''] then [([GET], EListActivities)]
      else if segs = [''signups''] then [([POST], ECreateSignup)]
      else case segs of
        [col, n] \<Rightarrow>
          (case parse_nat n of
             None \<Rightarrow> (if col = ''static'' \<and> n \<noteq> [] then [([GET], EStatic)] else [])
           | Some k \<Rightarrow>
               if col = ''campers'' then [([GET], EGetCamper (int k)), ([PATCH], EUpdateCamper (int k))]
               else if col = ''activities'' then [([DELETE], EDeleteActivity (int k))]
               else if col = ''static'' then [([GET], EStatic)]
               else [])
      | col # f # rest \<Rightarrow> (if col = ''static'' \<and> f \<noteq> [] then [([GET], EStatic)] else [])
      | _ \<Rightarrow> [])"

definition allows :: "http_method list \<Rightarrow> http_method \<Rightarrow> bool" where
  "allows ms m \<longleftrightarrow> m \<in> set ms \<or> (m = HEAD \<and> GET \<in> set ms)"

fun run_endpoint :: "endpoint \<Rightarrow> req_body \<Rightarrow> db \<Rightarrow> response \<times> db" where
  "run_endpoint EListCampers b s = list_campers s"
| "run_endpoint (EGetCamper i) b s = get_camper_by_id i s"
| "run_endpoint ECreateCamper b s = create_camper b s"
| "run_endpoint (EUpdateCamper i) b s = update_camper i b s"
| "run_endpoint EListActivities b s = list_activities s"
| "run_endpoint (EDeleteActivity i) b s = delete_activity i s"
| "run_endpoint ECreateSignup b s = create_signup b s"
| "run_endpoint EStatic b s = (not_found, s)"

definition dispatch :: "request \<Rightarrow> db \<Rightarrow> response \<times> db" where
  "dispatch r s =
     (let rules = url_rules (path_segments (path r)) in
      if rules = [] then
        (let merged = url_rules (merge_slashes (path_segments (path r))) in
         if merged = [] then (not_found, s)
         else if req_method r = OPTIONS \<or> find (\<lambda>(ms, e). allows ms (req_method r)) merged \<noteq> None
         then (error_page 308 ''Permanent Redirect'', s)
         else (error_page 405 ''Method Not Allowed'', s))
      else if req_method r = OPTIONS then (\<lparr>status = 200, body = REmpty\<rparr>, s)
      else case find (\<lambda>(ms, e). allows ms (req_method r)) rules of
             None \<Rightarrow> (error_page 405 ''Method Not Allowed'', s)
           | Some (ms, e) \<Rightarrow> run_endpoint e (payload r) s)"

definition handle :: "request \<Rightarrow> db \<Rightarrow> response \<times> db" where
  "handle r s =
     (case dispatch r s of (resp, s') \<Rightarrow>
        (if req_method r = HEAD then resp\<lparr>body := REmpty\<rparr> else resp, s'))"

text \<open>The store after POST /campers \<open>{"name": "Sam", "age": 12}\<close> on an
  empty database: the start of the scenario of the spec.\<close>

definition sam_db :: db where
  "sam_db = \<lparr>campers = [\<lparr>c_id = 1, c_name = PStr ''Sam'', c_age = PInt 12\<rparr>],
             activities = [], signups = []\<rparr>"

inductive reachable :: "db \<Rightarrow> bool" where
  init: "reachable empty_db"
| step: "reachable s \<Longrightarrow> reachable (snd (handle r s))"

lemma list_campers_same: "snd (list_campers s) = s"
  by (simp add: list_campers_def split: option.splits)
lemma list_activities_same: "snd (list_activities s) = s"
  by (simp add: list_activities_def split: option.splits)
lemma get_camper_by_id_same: "snd (get_camper_by_id i s) = s"
  by (simp add: get_camper_by_id_def split: sum.splits option.splits)

lemma run_endpoint_wf: "wf_db s \<Longrightarrow> wf_db (snd (run_endpoint e b s))"
  by (cases e) (simp_all add: list_campers_same list_activities_same get_camper_by_id_same
      create_camper_wf update_camper_wf delete_activity_wf create_signup_wf)

lemma dispatch_cases:
  "dispatch r s = (not_found, s) \<or> dispatch r s = (\<lparr>status = 200, body = REmpty\<rparr>, s) \<or>
   dispatch r s = (error_page 405 ''Method Not Allowed'', s) \<or>
   dispatch r s = (error_page 308 ''Permanent Redirect'', s) \<or>
   (\<exists>e. dispatch r s = run_endpoint e (payload r) s)"
  by (auto simp: dispatch_def Let_def split: option.splits prod.splits)

lemma handle_snd: "snd (handle r s) = snd (dispatch r s)"
  by (simp add: handle_def split: prod.splits)

lemma handle_status: "status (fst (handle r s)) = status (fst (dispatch r s))"
  by (simp add: handle_def split: prod.splits)

lemma handle_wf: "wf_db s \<Longrightarrow> wf_db (snd (handle r s))"
  using dispatch_cases [of r s] run_endpoint_wf by (auto simp: handle_snd)

text \<open>
  C1. Every store the service can reach from the empty database by any sequence of requests satisfies the store invariant: row ids strictly increasing (hence unique), every camper with a truthy name and an age within 8..18, every signup with a time within 0..23 and both foreign keys naming live rows (no orphan signups).
\<close>

theorem reachable_wf: "reachable s \<Longrightarrow> wf_db s"
proof (induction rule: reachable.induct)
  case init
  show ?case by (simp add: wf_db_def empty_db_def)
next
  case (step s r)
  from step.IH show ?case by (rule handle_wf)
qed

theorem reachable_wf_witness:
  "wf_db (snd (handle \<lparr>req_method = POST, path = ''/campers'',
                        payload = JsonBody (PDict [(''name'', PStr ''Sam''), (''age'', PInt 12)])\<rparr> empty_db))"
  by (rule reachable_wf [OF reachable.step [OF reachable.init]])

lemma run_endpoint_atomic: "400 \<le> status (fst (run_endpoint e b s)) \<Longrightarrow> snd (run_endpoint e b s) = s"
  by (cases e) (simp_all add: list_campers_same list_activities_same get_camper_by_id_same
      create_camper_atomic update_camper_atomic delete_activity_atomic create_signup_atomic)

text \<open>
  C2. Every request answered with an error status (400, 404, 405, 415 or 500) leaves the store exactly as it was: validation and integrity failures roll back, lookups that fail write nothing.
\<close>

theorem handle_error_atomic: "400 \<le> status (fst (handle r s)) \<Longrightarrow> snd (handle r s) = s"
  using dispatch_cases [of r s] run_endpoint_atomic by (auto simp: handle_snd handle_status)

theorem handle_error_atomic_witness:
  "400 \<le> status (fst (handle \<lparr>req_method = PATCH, path = ''/campers/1'',
                                 payload = JsonBody (PDict [(''age'', PInt 25)])\<rparr> sam_db)) \<and>
   snd (handle \<lparr>req_method = PATCH, path = ''/campers/1'',
                 payload = JsonBody (PDict [(''age'', PInt 25)])\<rparr> sam_db) = sam_db"
proof -
  have h: "400 \<le> status (fst (handle \<lparr>req_method = PATCH, path = ''/campers/1'',
                                 payload = JsonBody (PDict [(''age'', PInt 25)])\<rparr> sam_db))"
    by code_simp
  show ?thesis using h handle_error_atomic [OF h] by simp
qed

text \<open>
  C22. POST /campers and POST /signups with a body not declared as JSON
  answer 415 Unsupported Media Type and change nothing: \<open>request.get_json()\<close>
  raises before the view's \<open>try\<close>, so Flask's error page is sent instead of
  the uniform 400 body.
\<close>

theorem not_json_415:
  assumes "req_method r = POST" "path r = ''/campers'' \<or> path r = ''/signups''" "payload r = NotJson"
  shows "handle r s = (error_page 415 ''Unsupported Media Type'', s)"
  using assms
  by (auto simp: handle_def dispatch_def url_rules_def path_segments_def allows_def
      create_camper_def create_signup_def get_json_def error_page_def)

theorem not_json_415_witness:
  "handle \<lparr>req_method = POST, path = ''/signups'', payload = NotJson\<rparr> sam_db =
     (error_page 415 ''Unsupported Media Type'', sam_db)"
  by (rule not_json_415) simp_all

lemma url_rules_no_head: "(ms, e) \<in> set (url_rules segs) \<Longrightarrow> HEAD \<notin> set ms"
  by (auto simp: url_rules_def split: list.splits option.splits if_splits)

lemma url_rules_get_read_only:
  "(ms, e) \<in> set (url_rules segs) \<Longrightarrow> GET \<in> set ms \<Longrightarrow> snd (run_endpoint e b s) = s"
  by (auto simp: url_rules_def list_campers_same list_activities_same get_camper_by_id_same
      split: list.splits option.splits if_splits)

lemma dispatch_get_same: "req_method r \<in> {GET, HEAD} \<Longrightarrow> snd (dispatch r s) = s"
proof -
  assume m: "req_method r \<in> {GET, HEAD}"
  let ?rules = "url_rules (path_segments (path r))"
  show ?thesis
  proof (cases "find (\<lambda>(ms, e). allows ms (req_method r)) ?rules")
    case None
    then show ?thesis by (simp add: dispatch_def Let_def split: if_split)
  next
    case (Some me)
    obtain ms e where me: "me = (ms, e)" by fastforce
    from Some me have "(ms, e) \<in> set ?rules" "allows ms (req_method r)"
      by (auto dest: find_Some_pred)
    with m have "snd (run_endpoint e (payload r) s) = s"
      by (auto simp: allows_def intro: url_rules_get_read_only dest: url_rules_no_head)
    with Some me show ?thesis by (simp add: dispatch_def Let_def)
  qed
qed

text \<open>
  C25. GET requests never change the store: every rule allowing GET routes
  to a read-only view (the two lists, the camper detail, static files), and
  an unmatched path or a disallowed method changes nothing either.
\<close>

theorem get_read_only: "req_method r = GET \<Longrightarrow> snd (handle r s) = s"
  by (simp add: handle_snd dispatch_get_same)

theorem get_read_only_witness:
  "snd (handle \<lparr>req_method = GET, path = ''/campers/1'', payload = NotJson\<rparr> sam_db) = sam_db"
  by (rule get_read_only) simp

end
