(* ===== verification/Seed.thy ===== *)
theory Seed
  imports App
begin

text \<open>
  The seed script \<open>src/seed.py\<close>: it empties the three tables with bulk
  query deletes, creates the six activities of a fixed name list with a random
  difficulty in 1..5, the eight campers of a fixed name list (suffixed
  \<open>'' Doe''\<close>) with a random age in 8..18, commits, then creates twenty signups
  whose camper and activity are random choices among the objects just created
  and whose time is random in 0..23.  The random draws are parameters: the
  difficulties and ages as the integers \<open>randint\<close> returned, each
  \<open>choice(seq)\<close> as the index it picked, each signup as a triple of draws.
  The lemmas show that the script succeeds on every draw \<open>random\<close> can
  make, that it leaves a well-formed store with consecutive ids starting at 1,
  and that the signups it writes are exactly the drawn ones.
\<close>

text \<open>\<open>Signup.query.delete(); Camper.query.delete(); Activity.query.delete();
  commit()\<close>: bulk deletes, which bypass the ORM cascade (signups go first).\<close>

definition clear_tables :: "db \<Rightarrow> db" where
  "clear_tables s = s\<lparr>signups := [], campers := [], activities := []\<rparr>"

definition activity_names :: "string list" where
  "activity_names = [''Archery'', ''Swimming'', ''Hiking'', ''Campfire Stories'', ''Canoeing'',
                     ''Rock Climbing'']"

definition camper_names :: "string list" where
  "camper_names = [''Caitlin'', ''Lizzie'', ''Nicholas'', ''Ashley'', ''Zoe'', ''Mike'', ''Jenna'', ''Sam'']"

text \<open>\<open>session.add(Activity(name=..., difficulty=...))\<close> and the flush at the
  next commit: both columns are nullable, so only binding can fail.\<close>

definition new_activity :: "db \<Rightarrow> pyval \<times> pyval \<Rightarrow> activity_row" where
  "new_activity s nd =
     \<lparr>a_id = next_rowid (map a_id (activities s)),
      a_name = text_affinity (fst nd), a_difficulty = int_affinity (snd nd)\<rparr>"

definition insert_activity :: "pyval \<times> pyval \<Rightarrow> db \<Rightarrow> exc + activity_row \<times> db" where
  "insert_activity nd s =
     ebind (bind_param (fst nd)) (\<lambda>_. ebind (bind_param (snd nd)) (\<lambda>_.
       let a = new_activity s nd in Inr (a, s\<lparr>activities := activities s @ [a]\<rparr>)))"

text \<open>\<open>for i in range(1, 7): Activity(name=activity_names[i-1],
  difficulty=randint(1, 5))\<close>: one iteration per (name, draw) pair.\<close>

fun add_activities :: "(string \<times> int) list \<Rightarrow> db \<Rightarrow> exc + activity_row list \<times> db" where
  "add_activities [] s = Inr ([], s)"
| "add_activities ((n, d) # xs) s =
     ebind (insert_activity (PStr n, PInt d) s) (\<lambda>(a, s').
     ebind (add_activities xs s') (\<lambda>(as, s''). Inr (a # as, s'')))"

text \<open>\<open>for i in range(1, 9): Camper(name=f"{camper_names[i-1]} Doe",
  age=randint(8, 18))\<close>: the constructor runs both hooks.\<close>

fun add_campers :: "(string \<times> int) list \<Rightarrow> db \<Rightarrow> exc + camper_row list \<times> db" where
  "add_campers [] s = Inr ([], s)"
| "add_campers ((n, a) # xs) s =
     ebind (camper_init (PStr (n @ '' Doe'')) (PInt a)) (\<lambda>na.
     ebind (insert_camper na s) (\<lambda>(c, s').
     ebind (add_campers xs s') (\<lambda>(cs, s''). Inr (c # cs, s''))))"

text \<open>\<open>for _ in range(20): Signup(camper_id=choice(campers).id,
  activity_id=choice(activities).id, time=randint(0, 23))\<close>; a draw
  \<open>(i, j, t)\<close> picks \<open>campers[i]\<close> and \<open>activities[j]\<close>.\<close>

fun add_signups ::
  "(nat \<times> nat \<times> int) list \<Rightarrow> camper_row list \<Rightarrow> activity_row list \<Rightarrow> db \<Rightarrow> exc + db" where
  "add_signups [] cs as s = Inr s"
| "add_signups ((i, j, t) # xs) cs as s =
     ebind (signup_init (PInt (c_id (cs ! i))) (PInt (a_id (as ! j))) (PInt t)) (\<lambda>r.
     ebind (insert_signup r s) (\<lambda>(x, s'). add_signups xs cs as s'))"

text \<open>The whole script, given the draws of \<open>randint\<close> and \<open>choice\<close>.\<close>

definition seed :: "int list \<Rightarrow> int list \<Rightarrow> (nat \<times> nat \<times> int) list \<Rightarrow> db \<Rightarrow> exc + db" where
  "seed ds ages picks s =
     ebind (add_activities (zip activity_names ds) (clear_tables s)) (\<lambda>(as, s1).
     ebind (add_campers (zip camper_names ages) s1) (\<lambda>(cs, s2).
     add_signups picks cs as s2))"

lemma max_key_upto: "max_key [1..int k] = int k"
proof (induction k)
  case 0
  then show ?case by (simp add: max_key_def)
next
  case (Suc k)
  have "[1..int (Suc k)] = [1..int k] @ [int k + 1]"
    by (simp add: upto_rec2)
  then show ?case using Suc.IH by (simp add: max_key_def)
qed

lemma next_rowid_upto [simp]: "next_rowid [1..int k] = int k + 1"
  by (simp add: next_rowid_def max_key_upto)

lemma upto_snoc [simp]: "[1..int k] @ [int k + 1] = [1..int (Suc k)]"
  by (simp add: upto_rec2)

lemma small_int64 [simp]: "0 \<le> i \<Longrightarrow> i \<le> 2 ^ 32 \<Longrightarrow> int64_ok i"
  by (simp add: int64_ok_def)

lemma insert_activity_int:
  "int64_ok d \<Longrightarrow>
   insert_activity (PStr n, PInt d) s =
     Inr (new_activity s (PStr n, PInt d), s\<lparr>activities := activities s @ [new_activity s (PStr n, PInt d)]\<rparr>)"
  by (simp add: insert_activity_def Let_def)

lemma new_activity_fields [simp]:
  "a_name (new_activity s nd) = text_affinity (fst nd)"
  "a_difficulty (new_activity s nd) = int_affinity (snd nd)"
  "a_id (new_activity s nd) = next_rowid (map a_id (activities s))"
  by (simp_all add: new_activity_def)

lemma wf_append_activity:
  assumes wf: "wf_db s" and aid: "a_id a = next_rowid (map a_id (activities s))"
  shows "wf_db (s\<lparr>activities := activities s @ [a]\<rparr>)"
proof -
  have "sorted_wrt (<) (map a_id (activities s) @ [a_id a])"
    using wf by (intro sorted_wrt_less_snoc) (auto simp: wf_db_def aid next_rowid_above)
  moreover have "refs_ok (s\<lparr>activities := activities s @ [a]\<rparr>) x" if "refs_ok s x" for x
    using that by (auto simp: refs_ok_def)
  ultimately show ?thesis
    using wf by (auto simp: wf_db_def list_all_iff)
qed

lemma add_activities_ok:
  "list_all (\<lambda>(n, d). int64_ok d) xs \<Longrightarrow> wf_db s \<Longrightarrow>
   \<exists>as. add_activities xs s = Inr (as, s\<lparr>activities := activities s @ as\<rparr>) \<and>
        map a_name as = map (\<lambda>(n, d). PStr n) xs \<and> map a_difficulty as = map (\<lambda>(n, d). PInt d) xs \<and>
        wf_db (s\<lparr>activities := activities s @ as\<rparr>)"
proof (induction xs arbitrary: s)
  case Nil
  then show ?case by simp
next
  case (Cons nd xs)
  obtain n d where nd: "nd = (n, d)" by fastforce
  let ?a = "new_activity s (PStr n, PInt d)"
  let ?s1 = "s\<lparr>activities := activities s @ [?a]\<rparr>"
  have d: "int64_ok d" and xs: "list_all (\<lambda>(n, d). int64_ok d) xs"
    using Cons.prems nd by simp_all
  have "wf_db ?s1"
    using Cons.prems by (intro wf_append_activity) simp_all
  with Cons.IH [OF xs] obtain as where
    as: "add_activities xs ?s1 = Inr (as, ?s1\<lparr>activities := activities ?s1 @ as\<rparr>)"
        "map a_name as = map (\<lambda>(n, d). PStr n) xs" "map a_difficulty as = map (\<lambda>(n, d). PInt d) xs"
        "wf_db (?s1\<lparr>activities := activities ?s1 @ as\<rparr>)"
    by blast
  have "wf_db (s\<lparr>activities := activities s @ ?a # as\<rparr>)"
    using as(4) by simp
  then show ?case
    by (intro exI [of _ "?a # as"]) (simp add: nd d insert_activity_int as(1-3))
qed

lemma add_activities_ids:
  "add_activities xs s = Inr (as, s') \<Longrightarrow> map a_id (activities s) = [1..int k] \<Longrightarrow>
   map a_id (activities s') = [1..int (k + length xs)]"
proof (induction xs arbitrary: s k as)
  case Nil
  then show ?case by simp
next
  case (Cons nd xs)
  obtain n d where nd: "nd = (n, d)" by fastforce
  from Cons.prems(1) nd obtain a s1 as' where
    ins: "insert_activity (PStr n, PInt d) s = Inr (a, s1)" and rest: "add_activities xs s1 = Inr (as', s')"
    by (auto simp: ebind_eq_Inr split: prod.splits)
  from ins have "map a_id (activities s1) = [1..int (Suc k)]"
    using Cons.prems(2) by (auto simp: insert_activity_def ebind_eq_Inr Let_def)
  from Cons.IH [OF rest this] show ?case by simp
qed

lemma new_camper_fields [simp]:
  "c_name (new_camper s na) = text_affinity (fst na)"
  "c_age (new_camper s na) = int_affinity (snd na)"
  "c_id (new_camper s na) = next_rowid (map c_id (campers s))"
  by (simp_all add: new_camper_def)

lemma seed_camper_init:
  "8 \<le> a \<Longrightarrow> a \<le> 18 \<Longrightarrow> camper_init (PStr (n @ '' Doe'')) (PInt a) = Inr (PStr (n @ '' Doe''), PInt a)"
  by (simp add: camper_init_Inr age_ok_def)

lemma insert_camper_int:
  "int64_ok a \<Longrightarrow>
   insert_camper (PStr n, PInt a) s =
     Inr (new_camper s (PStr n, PInt a), s\<lparr>campers := campers s @ [new_camper s (PStr n, PInt a)]\<rparr>)"
  by (simp add: insert_camper_def bind_not_null_def Let_def)

lemma add_campers_ok:
  "list_all (\<lambda>(n, a). 8 \<le> a \<and> a \<le> 18) xs \<Longrightarrow> wf_db s \<Longrightarrow>
   \<exists>cs. add_campers xs s = Inr (cs, s\<lparr>campers := campers s @ cs\<rparr>) \<and>
        map c_name cs = map (\<lambda>(n, a). PStr (n @ '' Doe'')) xs \<and> map c_age cs = map (\<lambda>(n, a). PInt a) xs \<and>
        wf_db (s\<lparr>campers := campers s @ cs\<rparr>)"
proof (induction xs arbitrary: s)
  case Nil
  then show ?case by simp
next
  case (Cons na xs)
  obtain n a where na: "na = (n, a)" by fastforce
  let ?c = "new_camper s (PStr (n @ '' Doe''), PInt a)"
  let ?s1 = "s\<lparr>campers := campers s @ [?c]\<rparr>"
  have a: "8 \<le> a" "a \<le> 18" and xs: "list_all (\<lambda>(n, a). 8 \<le> a \<and> a \<le> 18) xs"
    using Cons.prems na by simp_all
  have ins: "insert_camper (PStr (n @ '' Doe''), PInt a) s = Inr (?c, ?s1)"
    using a by (simp add: insert_camper_int)
  have "wf_db ?s1"
    using a by (intro wf_insert_camper [OF Cons.prems(2) _ _ ins]) (simp_all add: age_ok_def)
  with Cons.IH [OF xs] obtain cs where
    cs: "add_campers xs ?s1 = Inr (cs, ?s1\<lparr>campers := campers ?s1 @ cs\<rparr>)"
        "map c_name cs = map (\<lambda>(n, a). PStr (n @ '' Doe'')) xs" "map c_age cs = map (\<lambda>(n, a). PInt a) xs"
        "wf_db (?s1\<lparr>campers := campers ?s1 @ cs\<rparr>)"
    by blast
  have "wf_db (s\<lparr>campers := campers s @ ?c # cs\<rparr>)"
    using cs(4) by simp
  then show ?case
    by (intro exI [of _ "?c # cs"]) (simp add: na a seed_camper_init ins cs(1-3))
qed

lemma add_campers_ids:
  "add_campers xs s = Inr (cs, s') \<Longrightarrow> map c_id (campers s) = [1..int k] \<Longrightarrow>
   map c_id (campers s') = [1..int (k + length xs)]"
proof (induction xs arbitrary: s k cs)
  case Nil
  then show ?case by simp
next
  case (Cons na xs)
  obtain n a where na: "na = (n, a)" by fastforce
  from Cons.prems(1) na obtain c s1 cs' nm where
    ins: "insert_camper nm s = Inr (c, s1)" and rest: "add_campers xs s1 = Inr (cs', s')"
    by (auto simp: ebind_eq_Inr split: prod.splits)
  from ins have "map c_id (campers s1) = [1..int (Suc k)]"
    using Cons.prems(2) by (auto dest: insert_camper_Inr)
  from Cons.IH [OF rest this] show ?case by simp
qed

lemma new_signup_fields [simp]:
  "s_camper_id (new_signup s (cid, aid, t)) = int_affinity cid"
  "s_activity_id (new_signup s (cid, aid, t)) = int_affinity aid"
  "s_time (new_signup s (cid, aid, t)) = int_affinity t"
  "s_id (new_signup s (cid, aid, t)) = next_rowid (map s_id (signups s))"
  by (simp_all add: new_signup_def)

lemma insert_signup_int:
  "int64_ok c \<Longrightarrow> int64_ok a \<Longrightarrow> int64_ok t \<Longrightarrow>
   insert_signup (PInt c, PInt a, PInt t) s =
     Inr (new_signup s (PInt c, PInt a, PInt t),
          s\<lparr>signups := signups s @ [new_signup s (PInt c, PInt a, PInt t)]\<rparr>)"
  by (simp add: insert_signup_def bind_not_null_def Let_def)

lemma add_signups_ok:
  "list_all (\<lambda>(i, j, t). i < length cs \<and> j < length as \<and> 0 \<le> t \<and> t \<le> 23) xs \<Longrightarrow>
   set cs \<subseteq> set (campers s) \<Longrightarrow> set as \<subseteq> set (activities s) \<Longrightarrow>
   list_all (\<lambda>c. int64_ok (c_id c)) cs \<Longrightarrow> list_all (\<lambda>a. int64_ok (a_id a)) as \<Longrightarrow> wf_db s \<Longrightarrow>
   \<exists>ys. add_signups xs cs as s = Inr (s\<lparr>signups := signups s @ ys\<rparr>) \<and>
        map (\<lambda>x. (s_camper_id x, s_activity_id x, s_time x)) ys =
          map (\<lambda>(i, j, t). (PInt (c_id (cs ! i)), PInt (a_id (as ! j)), PInt t)) xs \<and>
        wf_db (s\<lparr>signups := signups s @ ys\<rparr>)"
proof (induction xs arbitrary: s)
  case Nil
  then show ?case by simp
next
  case (Cons p xs)
  obtain i j t where p: "p = (i, j, t)" by (cases p) fastforce
  let ?r = "(PInt (c_id (cs ! i)), PInt (a_id (as ! j)), PInt t)"
  let ?x = "new_signup s ?r"
  let ?s1 = "s\<lparr>signups := signups s @ [?x]\<rparr>"
  have ij: "i < length cs" "j < length as" and t: "0 \<le> t" "t \<le> 23"
    and xs: "list_all (\<lambda>(i, j, t). i < length cs \<and> j < length as \<and> 0 \<le> t \<and> t \<le> 23) xs"
    using Cons.prems(1) p by simp_all
  have tok: "time_ok (PInt t)"
    using t by (simp add: time_ok_def)
  have c: "cs ! i \<in> set (campers s)" "int64_ok (c_id (cs ! i))"
    using ij Cons.prems(2,4) by (auto simp: list_all_iff)
  have a: "as ! j \<in> set (activities s)" "int64_ok (a_id (as ! j))"
    using ij Cons.prems(3,5) by (auto simp: list_all_iff)
  have ins: "insert_signup ?r s = Inr (?x, ?s1)"
    using c a t by (simp add: insert_signup_int)
  have wf1: "wf_db ?s1"
    using c a by (intro wf_insert_signup [OF Cons.prems(6) tok _ _ ins]) auto
  have sub: "set cs \<subseteq> set (campers ?s1)" "set as \<subseteq> set (activities ?s1)"
    using Cons.prems(2,3) by simp_all
  from Cons.IH [OF xs sub Cons.prems(4,5) wf1] obtain ys where
    ys: "add_signups xs cs as ?s1 = Inr (?s1\<lparr>signups := signups ?s1 @ ys\<rparr>)"
        "map (\<lambda>x. (s_camper_id x, s_activity_id x, s_time x)) ys =
           map (\<lambda>(i, j, t). (PInt (c_id (cs ! i)), PInt (a_id (as ! j)), PInt t)) xs"
        "wf_db (?s1\<lparr>signups := signups ?s1 @ ys\<rparr>)"
    by blast
  have "wf_db (s\<lparr>signups := signups s @ ?x # ys\<rparr>)"
    using ys(3) by simp
  then show ?case
    by (intro exI [of _ "?x # ys"]) (simp add: p tok signup_init_def ins ys(1-2))
qed

lemma add_signups_ids:
  "add_signups xs cs as s = Inr s' \<Longrightarrow> map s_id (signups s) = [1..int k] \<Longrightarrow>
   map s_id (signups s') = [1..int (k + length xs)]"
proof (induction xs arbitrary: s k)
  case Nil
  then show ?case by simp
next
  case (Cons p xs)
  obtain i j t where p: "p = (i, j, t)" by (cases p) fastforce
  from Cons.prems(1) p obtain r x s1 where
    ins: "insert_signup r s = Inr (x, s1)" and rest: "add_signups xs cs as s1 = Inr s'"
    by (auto simp: ebind_eq_Inr split: prod.splits)
  obtain cid aid tm where r: "r = (cid, aid, tm)" by (cases r) fastforce
  from ins have "map s_id (signups s1) = [1..int (Suc k)]"
    using Cons.prems(2) unfolding r by (auto dest: insert_signup_Inr)
  from Cons.IH [OF rest this] show ?case by simp
qed

lemma nth_consecutive_id:
  "map f xs = [1..int n] \<Longrightarrow> i < n \<Longrightarrow> f (xs ! i) = int i + 1"
proof -
  assume ids: "map f xs = [1..int n]" and i: "i < n"
  then have "i < length xs"
    by (metis length_map length_upto diff_add_cancel nat_int)
  then have "f (xs ! i) = [1..int n] ! i"
    by (simp add: ids [symmetric])
  also have "\<dots> = int i + 1"
    using i by (simp add: nth_upto)
  finally show ?thesis .
qed

lemma consecutive_ids_int64:
  "map f xs = [1..int n] \<Longrightarrow> n \<le> 2 ^ 32 \<Longrightarrow> list_all (\<lambda>x. int64_ok (f x)) xs"
proof -
  assume ids: "map f xs = [1..int n]" and n: "n \<le> 2 ^ 32"
  have "f x \<in> set [1..int n]" if "x \<in> set xs" for x
    using that by (simp add: ids [symmetric])
  then have "0 \<le> f x \<and> f x \<le> 2 ^ 32" if "x \<in> set xs" for x
    using that n by fastforce
  then show ?thesis
    by (simp add: list_all_iff)
qed

lemma wf_clear_tables: "wf_db (clear_tables s)"
  by (simp add: wf_db_def clear_tables_def)

lemma zip_draws:
  "length xs = length ys \<Longrightarrow> list_all P ys \<Longrightarrow> list_all (\<lambda>(n, d). P d) (zip xs ys)"
  by (auto simp: list_all_iff dest: set_zip_rightD)

lemma map_zip_fst [simp]:
  "length xs = length ys \<Longrightarrow> map (\<lambda>(n, d). f n) (zip xs ys) = map f xs"
  by (induction xs ys rule: list_induct2) auto

lemma map_zip_snd [simp]:
  "length xs = length ys \<Longrightarrow> map (\<lambda>(n, d). g d) (zip xs ys) = map g ys"
  by (induction xs ys rule: list_induct2) auto

text \<open>The whole script on draws \<open>random\<close> can make: it succeeds, and its
  store is well formed, numbered from 1 in each table, and holds exactly the
  fixed names and the drawn values.\<close>

lemma seed_result:
  assumes ds: "length ds = 6" "list_all (\<lambda>d. 1 \<le> d \<and> d \<le> 5) ds"
    and ages: "length ages = 8" "list_all (\<lambda>a. 8 \<le> a \<and> a \<le> 18) ages"
    and picks: "list_all (\<lambda>(i, j, t). i < 8 \<and> j < 6 \<and> 0 \<le> t \<and> t \<le> 23) picks"
  shows "\<exists>s'. seed ds ages picks s = Inr s' \<and> wf_db s' \<and>
     map c_id (campers s') = [1..8] \<and> map a_id (activities s') = [1..6] \<and>
     map s_id (signups s') = [1..int (length picks)] \<and>
     map c_name (campers s') = map (\<lambda>n. PStr (n @ '' Doe'')) camper_names \<and>
     map c_age (campers s') = map PInt ages \<and>
     map a_name (activities s') = map PStr activity_names \<and>
     map a_difficulty (activities s') = map PInt ds \<and>
     map (\<lambda>x. (s_camper_id x, s_activity_id x, s_time x)) (signups s') =
       map (\<lambda>(i, j, t). (PInt (int i + 1), PInt (int j + 1), PInt t)) picks"
proof -
  let ?s0 = "clear_tables s"
  have lenA: "length activity_names = length ds" and lenC: "length camper_names = length ages"
    using ds ages by (simp_all add: activity_names_def camper_names_def)
  have "list_all int64_ok ds"
    using ds(2) by (auto simp: list_all_iff int64_ok_def)
  from zip_draws [OF lenA this] have "list_all (\<lambda>(n, d). int64_ok d) (zip activity_names ds)" .
  from add_activities_ok [OF this wf_clear_tables] obtain as where
    A: "add_activities (zip activity_names ds) ?s0 = Inr (as, ?s0\<lparr>activities := activities ?s0 @ as\<rparr>)"
       "map a_name as = map PStr activity_names" "map a_difficulty as = map PInt ds"
       "wf_db (?s0\<lparr>activities := activities ?s0 @ as\<rparr>)"
    using lenA by auto
  let ?s1 = "?s0\<lparr>activities := activities ?s0 @ as\<rparr>"
  have aids: "map a_id as = [1..6]"
    using add_activities_ids [OF A(1), of 0] lenA ds(1) by (simp add: clear_tables_def)
  have "list_all (\<lambda>(n, a). 8 \<le> a \<and> a \<le> 18) (zip camper_names ages)"
    using zip_draws [OF lenC ages(2)] .
  from add_campers_ok [OF this A(4)] obtain cs where
    C: "add_campers (zip camper_names ages) ?s1 = Inr (cs, ?s1\<lparr>campers := campers ?s1 @ cs\<rparr>)"
       "map c_name cs = map (\<lambda>n. PStr (n @ '' Doe'')) camper_names" "map c_age cs = map PInt ages"
       "wf_db (?s1\<lparr>campers := campers ?s1 @ cs\<rparr>)"
    using lenC by auto
  let ?s2 = "?s1\<lparr>campers := campers ?s1 @ cs\<rparr>"
  have cids: "map c_id cs = [1..8]"
    using add_campers_ids [OF C(1), of 0] lenC ages(1) by (simp add: clear_tables_def)
  have s2: "campers ?s2 = cs" "activities ?s2 = as" "signups ?s2 = []"
    by (simp_all add: clear_tables_def)
  have lens: "length cs = 8" "length as = 6"
    using arg_cong [OF cids, of length] arg_cong [OF aids, of length] by simp_all
  have picks': "list_all (\<lambda>(i, j, t). i < length cs \<and> j < length as \<and> 0 \<le> t \<and> t \<le> 23) picks"
    using picks by (simp add: lens)
  have i64: "list_all (\<lambda>c. int64_ok (c_id c)) cs" "list_all (\<lambda>a. int64_ok (a_id a)) as"
    using consecutive_ids_int64 [of c_id cs 8] consecutive_ids_int64 [of a_id as 6] cids aids by simp_all
  from add_signups_ok [OF picks' _ _ i64 C(4)] s2 obtain ys where
    S: "add_signups picks cs as ?s2 = Inr (?s2\<lparr>signups := ys\<rparr>)"
       "map (\<lambda>x. (s_camper_id x, s_activity_id x, s_time x)) ys =
          map (\<lambda>(i, j, t). (PInt (c_id (cs ! i)), PInt (a_id (as ! j)), PInt t)) picks"
       "wf_db (?s2\<lparr>signups := ys\<rparr>)"
    by auto
  have sids: "map s_id ys = [1..int (length picks)]"
    using add_signups_ids [OF S(1), of 0] by (simp add: clear_tables_def)
  have "map (\<lambda>(i, j, t). (PInt (c_id (cs ! i)), PInt (a_id (as ! j)), PInt t)) picks =
        map (\<lambda>(i, j, t). (PInt (int i + 1), PInt (int j + 1), PInt t)) picks"
  proof (rule map_cong [OF refl])
    fix p assume "p \<in> set picks"
    with picks show "(case p of (i, j, t) \<Rightarrow> (PInt (c_id (cs ! i)), PInt (a_id (as ! j)), PInt t)) =
                     (case p of (i, j, t) \<Rightarrow> (PInt (int i + 1), PInt (int j + 1), PInt t))"
      using nth_consecutive_id [of c_id cs 8] nth_consecutive_id [of a_id as 6] cids aids
      by (auto simp: list_all_iff)
  qed
  moreover have "seed ds ages picks s = Inr (?s2\<lparr>signups := ys\<rparr>)"
    using S(1) by (simp add: seed_def A(1) C(1))
  ultimately show ?thesis
    using S(2,3) sids s2 A(2,3) C(2,3) aids cids by simp
qed

text \<open>
  C17. On every draw \<open>random\<close> can make (difficulties in 1..5, ages in
  8..18, choices among the eight campers and six activities, times in 0..23),
  the seed script runs without raising and leaves a well-formed store whose
  campers are numbered 1..8, activities 1..6 and signups 1..n, from whatever
  store it started.
\<close>

theorem seed_wf:
  assumes "length ds = 6" "list_all (\<lambda>d. 1 \<le> d \<and> d \<le> 5) ds"
    and "length ages = 8" "list_all (\<lambda>a. 8 \<le> a \<and> a \<le> 18) ages"
    and "list_all (\<lambda>(i, j, t). i < 8 \<and> j < 6 \<and> 0 \<le> t \<and> t \<le> 23) picks"
  shows "\<exists>s'. seed ds ages picks s = Inr s' \<and> wf_db s' \<and>
           map c_id (campers s') = [1..8] \<and> map a_id (activities s') = [1..6] \<and>
           map s_id (signups s') = [1..int (length picks)]"
  using seed_result [OF assms] by blast

theorem seed_wf_witness:
  "\<exists>s'. seed [3, 1, 5, 2, 4, 1] [8, 9, 10, 12, 14, 16, 17, 18] [(0, 5, 0), (7, 0, 23)] sam_db = Inr s' \<and>
        wf_db s' \<and> map c_id (campers s') = [1..8] \<and> map a_id (activities s') = [1..6] \<and>
        map s_id (signups s') = [1..int (length [(0::nat, 5::nat, 0::int), (7, 0, 23)])]"
  by (rule seed_wf) simp_all

text \<open>
  C18. The seeded rows are exactly the script's fixed names and its draws:
  campers named \<open>"<name> Doe"\<close> in list order with the drawn ages,
  activities with the listed names and drawn difficulties, and each signup
  pointing at camper \<open>i + 1\<close> and activity \<open>j + 1\<close> for the drawn indices
  \<open>i\<close>, \<open>j\<close>, with the drawn time.
\<close>

theorem seed_contents:
  assumes "length ds = 6" "list_all (\<lambda>d. 1 \<le> d \<and> d \<le> 5) ds"
    and "length ages = 8" "list_all (\<lambda>a. 8 \<le> a \<and> a \<le> 18) ages"
    and "list_all (\<lambda>(i, j, t). i < 8 \<and> j < 6 \<and> 0 \<le> t \<and> t \<le> 23) picks"
  shows "\<exists>s'. seed ds ages picks s = Inr s' \<and>
           map c_name (campers s') = map (\<lambda>n. PStr (n @ '' Doe'')) camper_names \<and>
           map c_age (campers s') = map PInt ages \<and>
           map a_name (activities s') = map PStr activity_names \<and>
           map a_difficulty (activities s') = map PInt ds \<and>
           map (\<lambda>x. (s_camper_id x, s_activity_id x, s_time x)) (signups s') =
             map (\<lambda>(i, j, t). (PInt (int i + 1), PInt (int j + 1), PInt t)) picks"
  using seed_result [OF assms] by blast

theorem seed_contents_witness:
  "\<exists>s'. seed [3, 1, 5, 2, 4, 1] [8, 9, 10, 12, 14, 16, 17, 18] [(0, 5, 0), (7, 0, 23)] empty_db = Inr s' \<and>
        map c_name (campers s') = map (\<lambda>n. PStr (n @ '' Doe'')) camper_names \<and>
        map c_age (campers s') = map PInt [8, 9, 10, 12, 14, 16, 17, 18] \<and>
        map a_name (activities s') = map PStr activity_names \<and>
        map a_difficulty (activities s') = map PInt [3, 1, 5, 2, 4, 1] \<and>
        map (\<lambda>x. (s_camper_id x, s_activity_id x, s_time x)) (signups s') =
          map (\<lambda>(i, j, t). (PInt (int i + 1), PInt (int j + 1), PInt t)) [(0::nat, 5::nat, 0::int), (7, 0, 23)]"
  by (rule seed_contents) simp_all

end
