(* ===== verification/Config.thy ===== *)
theory Config
  imports App
begin

text \<open>
  The application object of \<open>src/server/__init__.py\<close> and
  \<open>src/server/app.py\<close>.  Importing the package runs \<open>load_dotenv()\<close>, which
  adds the variables of a \<open>.env\<close> file to the process environment without
  overriding those already set; \<open>create_app()\<close> reads the database URI and
  the \<open>FLASK_APP\<close> name from the environment with their defaults, sets
  \<open>SQLALCHEMY_TRACK_MODIFICATIONS\<close> to False and initialises the two
  extensions; \<open>app.py\<close> then registers the blueprint \<open>api\<close> of
  \<open>routes.py\<close>.  The URL map of an application is its static rule plus the
  rules of the registered blueprints; the lemmas show that the module's
  application routes exactly by \<open>url_rules\<close>, the map \<open>dispatch\<close> uses,
  that the environment takes priority over \<open>.env\<close> and both over the
  defaults, and that registering the blueprint a second time raises.
\<close>

type_synonym environ = "string \<rightharpoonup> string"

text \<open>\<open>load_dotenv()\<close> with \<open>override=False\<close>: a variable already in the
  environment keeps its value.\<close>

definition load_dotenv :: "environ \<Rightarrow> environ \<Rightarrow> environ" where
  "load_dotenv dotenv env = dotenv ++ env"

text \<open>\<open>os.environ.get(k, default)\<close>.\<close>

definition environ_get :: "environ \<Rightarrow> string \<Rightarrow> string \<Rightarrow> string" where
  "environ_get env k d = (case env k of Some v \<Rightarrow> v | None \<Rightarrow> d)"

record app_config =
  database_uri :: string
  track_modifications :: bool
  flask_app_name :: string

record flask_app =
  app_cfg :: app_config
  app_extensions :: "string list"
  app_blueprints :: "string list"

definition create_app :: "environ \<Rightarrow> flask_app" where
  "create_app env =
     \<lparr>app_cfg = \<lparr>database_uri = environ_get env ''DATABASE_URI'' ''sqlite:///app.db'',
                 track_modifications = False,
                 flask_app_name = environ_get env ''FLASK_APP'' ''server.app''\<rparr>,
      app_extensions = [''sqlalchemy'', ''migrate''],
      app_blueprints = []\<rparr>"

text \<open>\<open>Blueprint('api', __name__, url_prefix='/')\<close>.\<close>

definition api_bp_name :: string where
  "api_bp_name = ''api''"

text \<open>\<open>app.register_blueprint(bp)\<close>: a name already registered raises
  ValueError (Flask 2.3 and later).\<close>

definition register_blueprint :: "string \<Rightarrow> flask_app \<Rightarrow> exc + flask_app" where
  "register_blueprint name a =
     (if name \<in> set (app_blueprints a) then Inl ValueError
      else Inr (a\<lparr>app_blueprints := app_blueprints a @ [name]\<rparr>))"

text \<open>Importing \<open>server.app\<close>: \<open>load_dotenv()\<close> at package import, then
  \<open>app = create_app()\<close> and \<open>app.register_blueprint(api_bp)\<close>.\<close>

definition app_module :: "environ \<Rightarrow> environ \<Rightarrow> exc + flask_app" where
  "app_module dotenv env = register_blueprint api_bp_name (create_app (load_dotenv dotenv env))"

text \<open>The URL map of an application: the static rule Flask adds in
  \<open>Flask(__name__)\<close>, and the rules of \<open>api\<close> once it is registered.\<close>

definition app_url_rules :: "flask_app \<Rightarrow> string list \<Rightarrow> (http_method list \<times> endpoint) list" where
  "app_url_rules a segs =
     (if api_bp_name \<in> set (app_blueprints a) then url_rules segs
      else filter (\<lambda>(ms, e). e = EStatic) (url_rules segs))"

text \<open>Running \<open>server/app.py\<close> as \<open>__main__\<close>: after the module body,
  \<open>os.environ['FLASK_APP'] = 'server.app'\<close>, then \<open>app.run(port=5000,
  debug=True)\<close>.  The result is the application served, the process
  environment it runs under and the parameters of the development server.\<close>

record run_params =
  run_port :: nat
  run_debug :: bool

definition app_main :: "environ \<Rightarrow> environ \<Rightarrow> exc + flask_app \<times> environ \<times> run_params" where
  "app_main dotenv env =
     ebind (app_module dotenv env) (\<lambda>a.
       let env' = (load_dotenv dotenv env)(''FLASK_APP'' \<mapsto> ''server.app'')
       in Inr (a, env', \<lparr>run_port = 5000, run_debug = True\<rparr>))"

lemma environ_get_load_dotenv:
  "environ_get (load_dotenv dotenv env) k d =
     (case env k of Some v \<Rightarrow> v | None \<Rightarrow> (case dotenv k of Some v \<Rightarrow> v | None \<Rightarrow> d))"
  by (simp add: environ_get_def load_dotenv_def map_add_def split: option.splits)

lemma create_app_blueprints [simp]: "app_blueprints (create_app env) = []"
  by (simp add: create_app_def)

text \<open>
  Importing \<open>server.app\<close> always succeeds, and the application it
  builds routes every path exactly by \<open>url_rules\<close>, the URL map the request
  model \<open>dispatch\<close> uses.
\<close>

theorem app_module_routes:
  "\<exists>a. app_module dotenv env = Inr a \<and> app_url_rules a = url_rules"
  by (simp add: app_module_def register_blueprint_def app_url_rules_def fun_eq_iff)

text \<open>
  The configuration of \<open>create_app()\<close>: the process environment takes
  priority over \<open>.env\<close>, which takes priority over the defaults
  \<open>sqlite:///app.db\<close> and \<open>server.app\<close>; modification tracking is off.
\<close>

theorem create_app_config:
  "app_cfg (create_app (load_dotenv dotenv env)) =
     \<lparr>database_uri = (case env ''DATABASE_URI'' of Some v \<Rightarrow> v
                      | None \<Rightarrow> (case dotenv ''DATABASE_URI'' of Some v \<Rightarrow> v | None \<Rightarrow> ''sqlite:///app.db'')),
      track_modifications = False,
      flask_app_name = (case env ''FLASK_APP'' of Some v \<Rightarrow> v
                      | None \<Rightarrow> (case dotenv ''FLASK_APP'' of Some v \<Rightarrow> v | None \<Rightarrow> ''server.app''))\<rparr>"
  by (simp add: create_app_def environ_get_load_dotenv)

text \<open>
  Registering a blueprint whose name is already registered raises
  ValueError: the module's application cannot take \<open>api_bp\<close> a second
  time.
\<close>

theorem register_twice_error:
  assumes "register_blueprint n a = Inr a'"
  shows "register_blueprint n a' = Inl ValueError"
  using assms by (auto simp: register_blueprint_def split: if_splits)

theorem register_twice_error_witness:
  "register_blueprint api_bp_name (create_app Map.empty) =
     Inr ((create_app Map.empty)\<lparr>app_blueprints := [api_bp_name]\<rparr>) \<and>
   register_blueprint api_bp_name ((create_app Map.empty)\<lparr>app_blueprints := [api_bp_name]\<rparr>) = Inl ValueError"
  using register_twice_error [of api_bp_name "create_app Map.empty" "(create_app Map.empty)\<lparr>app_blueprints := [api_bp_name]\<rparr>"]
  by (simp add: register_blueprint_def)


text \<open>The assignment of \<open>FLASK_APP\<close> in the \<open>__main__\<close> block comes after
  \<open>create_app()\<close> has read it: the served application keeps the name read
  from the environment before, while the process environment afterwards says
  \<open>server.app\<close>.  With \<open>FLASK_APP=other\<close> set, the two disagree.\<close>

theorem app_main_sets_flask_app_late:
  "\<exists>a. app_main dotenv env =
          Inr (a, (load_dotenv dotenv env)(''FLASK_APP'' \<mapsto> ''server.app''),
               \<lparr>run_port = 5000, run_debug = True\<rparr>) \<and>
        app_url_rules a = url_rules \<and>
        flask_app_name (app_cfg a) = environ_get (load_dotenv dotenv env) ''FLASK_APP'' ''server.app''"
  by (simp add: app_main_def app_module_def register_blueprint_def app_url_rules_def create_app_def fun_eq_iff)

theorem app_main_flask_app_disagree:
  "\<exists>a env'. app_main Map.empty [''FLASK_APP'' \<mapsto> ''other''] = Inr (a, env', \<lparr>run_port = 5000, run_debug = True\<rparr>) \<and>
     flask_app_name (app_cfg a) = ''other'' \<and> env' ''FLASK_APP'' = Some ''server.app''"
  by (simp add: app_main_def app_module_def register_blueprint_def create_app_def environ_get_def
      load_dotenv_def)
end
