(* ===== verification/Effects.thy ===== *)
theory Effects
  imports App
begin

text \<open>
  What one request can do to the store.  Every view of \<open>routes.py\<close>
  either leaves the store as it was (reads, errors rolled back) or commits
  exactly one of the store operations of \<open>Store\<close>: an INSERT of a camper
  whose attributes passed the hooks, an UPDATE of the assigned camper
  columns, the cascade delete of an activity, or an INSERT of a signup whose
  camper and activity were found.  \<open>store_effect\<close> lists these, and
  \<open>handle_store_effect\<close> shows every request is one of them; a property of
  the store preserved by each operation is then preserved by every request
  by proving it for each operation, which is how the invariants below are
  proved: ids bounded by the number of requests served (C28), column types
  (C29); and the liveness of deleting every activity (C30).
\<close>

inductive store_effect :: "db \<Rightarrow> db \<Rightarrow> bool" where
  keep: "store_effect s s"
| insert_camper: "camper_init name age = Inr na \<Longrightarrow> insert_camper na s = Inr (c, s') \<Longrightarrow> store_effect s s'"
| update_camper: "pred_option py_truthy nn \<Longrightarrow> pred_option age_ok na \<Longrightarrow>
    update_camper_row i nn na s = Inr s' \<Longrightarrow> store_effect s s'"
| delete_activity: "store_effect s (delete_activity_cascade i s)"
| insert_signup: "get_camper s cid = Inr (Some c) \<Longrightarrow> get_activity s aid = Inr (Some a) \<Longrightarrow>
    signup_init cid aid t = Inr r \<Longrightarrow> insert_signup r s = Inr (x, s') \<Longrightarrow> store_effect s s'"

text \<open>The store after serving a sequence of requests one at a time.\<close>

definition serve :: "request list \<Rightarrow> db \<Rightarrow> db" where
  "serve rs s = fold (\<lambda>r s. snd (handle r s)) rs s"

definition ids_within :: "nat \<Rightarrow> db \<Rightarrow> bool" where
  "ids_within n s \<longleftrightarrow>
     list_all (\<lambda>k. 1 \<le> k \<and> k \<le> int n) (map c_id (campers s)) \<and>
     list_all (\<lambda>k. 1 \<le> k \<and> k \<le> int n) (map a_id (activities s)) \<and>
     list_all (\<lambda>k. 1 \<le> k \<and> k \<le> int n) (map s_id (signups s))"

text \<open>An INTEGER column of a stored row holds an integer, or a REAL that is
  not integral (SQLite keeps 12.5 as REAL, converts 12.0 and booleans to
  INTEGER); never TEXT.\<close>

fun int_column :: "pyval \<Rightarrow> bool" where
  "int_column (PInt i) = True"
| "int_column (PFloat q) = (q \<noteq> of_int \<lfloor>q\<rfloor>)"
| "int_column _ = False"

definition columns_typed :: "db \<Rightarrow> bool" where
  "columns_typed s \<longleftrightarrow>
     list_all (\<lambda>c. int_column (c_age c)) (campers s) \<and> list_all (\<lambda>x. int_column (s_time x)) (signups s)"

text \<open>DELETE /activities/<k>, the path written as Werkzeug's \<open><int:id>\<close>
  converter reads it.\<close>

definition delete_request :: "int \<Rightarrow> request" where
  "delete_request k = \<lparr>req_method = DELETE, path = ''/activities/'' @ nat_digits (nat k), payload = NotJson\<rparr>"

lemma create_camper_effect: "store_effect s (snd (create_camper b s))"
  by (auto simp: create_camper_def ebind_eq_Inr to_dict_budget
      intro: store_effect.intros split: sum.splits prod.splits option.splits)

lemma update_camper_effect: "store_effect s (snd (update_camper i b s))"
  by (auto simp: update_camper_def ebind_eq_Inr to_dict_budget
      intro: store_effect.intros dest: assign_name_truthy assign_age_ok
      split: sum.splits prod.splits option.splits)

lemma delete_activity_effect: "store_effect s (snd (delete_activity i s))"
  by (auto simp: delete_activity_def intro: store_effect.intros split: sum.splits option.splits)

lemma create_signup_effect: "store_effect s (snd (create_signup b s))"
  by (auto simp: create_signup_def ebind_eq_Inr to_dict_budget
      intro: store_effect.intros split: sum.splits prod.splits option.splits)

lemma run_endpoint_effect: "store_effect s (snd (run_endpoint e b s))"
  by (cases e) (simp_all add: list_campers_same list_activities_same get_camper_by_id_same
      store_effect.keep create_camper_effect update_camper_effect delete_activity_effect
      create_signup_effect)

lemma handle_store_effect: "store_effect s (snd (handle r s))"
  using dispatch_cases [of r s] run_endpoint_effect by (auto simp: handle_snd intro: store_effect.keep)

lemma serve_snoc: "serve (rs @ [r]) s = snd (handle r (serve rs s))"
  by (simp add: serve_def)

lemma serve_Nil [simp]: "serve [] s = s"
  by (simp add: serve_def)

lemma next_rowid_within:
  assumes "list_all (\<lambda>k. 1 \<le> k \<and> k \<le> int n) ids"
  shows "1 \<le> next_rowid ids \<and> next_rowid ids \<le> int (Suc n)"
proof -
  have "0 \<le> max_key ids"
    unfolding max_key_def by (rule fold_max_ge_start)
  moreover have "max_key ids \<le> int n"
    unfolding max_key_def using assms by (intro fold_max_le) (auto simp: list_all_iff)
  ultimately show ?thesis
    by (simp add: next_rowid_def)
qed

lemma list_all_within_Suc:
  "list_all (\<lambda>k. 1 \<le> k \<and> k \<le> int n) ks \<Longrightarrow> list_all (\<lambda>k. 1 \<le> k \<and> k \<le> 1 + int n) ks"
  by (auto simp: list_all_iff)

lemma ids_within_effect:
  assumes "store_effect s s'" "ids_within n s"
  shows "ids_within (Suc n) s'"
  using assms
proof (induction rule: store_effect.induct)
  case (keep s)
  then show ?case by (simp add: ids_within_def list_all_within_Suc)
next
  case (insert_camper name age na s c s')
  then have "s' = s\<lparr>campers := campers s @ [c]\<rparr>" "c_id c = next_rowid (map c_id (campers s))"
    by (auto dest: insert_camper_Inr)
  with insert_camper.prems show ?case
    using next_rowid_within [of n "map c_id (campers s)"]
    by (simp add: ids_within_def list_all_within_Suc)
next
  case (update_camper nn na i s s')
  then have "map c_id (campers s') = map c_id (campers s)" "activities s' = activities s" "signups s' = signups s"
    by (auto dest!: update_camper_row_Inr simp: map_update_same_key)
  with update_camper.prems show ?case
    by (simp add: ids_within_def list_all_within_Suc)
next
  case (delete_activity s i)
  then show ?case
    by (auto simp: ids_within_def list_all_iff delete_activity_cascade_def)
next
  case (insert_signup s cid c aid a t r x s')
  obtain cid' aid' t' where r: "r = (cid', aid', t')" by (cases r) auto
  with insert_signup have "s' = s\<lparr>signups := signups s @ [x]\<rparr>" "s_id x = next_rowid (map s_id (signups s))"
    by (auto dest: insert_signup_Inr)
  with insert_signup.prems show ?case
    using next_rowid_within [of n "map s_id (signups s)"]
    by (simp add: ids_within_def list_all_within_Suc)
qed

lemma int_column_affinity:
  assumes "py_num v = Some q" "0 \<le> q" "q \<le> 23"
  shows "int_column (int_affinity v)"
proof (cases v)
  case (PFloat p)
  with assms have "p = q" by simp
  have "int64_ok \<lfloor>q\<rfloor>"
    using assms by (auto simp: int64_ok_def floor_le_iff le_floor_iff)
  with PFloat \<open>p = q\<close> show ?thesis by simp
qed (use assms in auto)

lemma int_column_age: "age_ok v \<Longrightarrow> int_column (int_affinity v)"
  by (auto simp: age_ok_def split: option.splits intro: int_column_affinity)

lemma int_column_time: "time_ok v \<Longrightarrow> int_column (int_affinity v)"
  by (auto simp: time_ok_def split: option.splits intro: int_column_affinity)

lemma columns_typed_effect:
  assumes "store_effect s s'" "columns_typed s"
  shows "columns_typed s'"
  using assms
proof (induction rule: store_effect.induct)
  case (insert_camper name age na s c s')
  then have "s' = s\<lparr>campers := campers s @ [c]\<rparr>" "c_age c = int_affinity age" "age_ok age"
    by (auto dest: insert_camper_Inr simp: camper_init_Inr)
  with insert_camper.prems show ?case
    by (simp add: columns_typed_def int_column_age)
next
  case (update_camper nn na i s s')
  have s': "s' = s\<lparr>campers := map (\<lambda>c. if c_id c = i
                   then c\<lparr>c_name := set_column text_affinity nn (c_name c),
                          c_age := set_column int_affinity na (c_age c)\<rparr> else c) (campers s)\<rparr>"
    using update_camper.hyps(3) by (rule update_camper_row_Inr)
  have "int_column (set_column int_affinity na v)" if "int_column v" for v
    using update_camper.hyps(2) that by (cases na) (auto intro: int_column_age)
  with update_camper.prems show ?case
    by (auto simp: s' columns_typed_def list_all_iff)
next
  case (delete_activity s i)
  then show ?case
    by (auto simp: columns_typed_def list_all_iff delete_activity_cascade_def)
next
  case (insert_signup s cid c aid a t r x s')
  then have "r = (cid, aid, t)" "time_ok t"
    by (auto simp: signup_init_Inr)
  with insert_signup have "s' = s\<lparr>signups := signups s @ [x]\<rparr>" "s_time x = int_affinity t"
    by (auto dest: insert_signup_Inr)
  with insert_signup.prems \<open>time_ok t\<close> show ?case
    by (simp add: columns_typed_def int_column_time)
qed simp

lemma serve_Cons [simp]: "serve (r # rs) s = serve rs (snd (handle r s))"
  by (simp add: serve_def)

text \<open>
  C28. Ids stay within the number of requests served: after any sequence of
  \<open>n\<close> requests from an empty database, every camper, activity and signup id
  lies in 1..n.  So an id reaches the signed 64-bit limit only after
  \<open>2^63\<close> requests, and the row-id allocation never overflows in practice.
\<close>

theorem serve_ids_within: "ids_within (length rs) (serve rs empty_db)"
proof (induction rs rule: rev_induct)
  case Nil
  then show ?case by (simp add: ids_within_def empty_db_def)
next
  case (snoc r rs)
  then show ?case
    using ids_within_effect [OF handle_store_effect] by (simp add: serve_snoc)
qed

text \<open>
  C29. Column types in every reachable store: each camper's age and each
  signup's time is stored as an INTEGER, or as a REAL that is not integral
  (a float age such as 12.5 passes the hook and is kept as REAL); never as
  TEXT or as a bool, whatever JSON value was sent.
\<close>

theorem reachable_columns_typed: "reachable s \<Longrightarrow> columns_typed s"
proof (induction rule: reachable.induct)
  case init
  then show ?case by (simp add: columns_typed_def empty_db_def)
next
  case (step s r)
  from step.IH show ?case by (rule columns_typed_effect [OF handle_store_effect])
qed

theorem reachable_columns_typed_witness:
  "columns_typed (snd (handle \<lparr>req_method = POST, path = ''/campers'',
      payload = JsonBody (PDict [(''name'', PStr ''Kim''), (''age'', PFloat (25 / 2))])\<rparr> empty_db))"
  by (rule reachable_columns_typed) (rule reachable.step [OF reachable.init])

lemma nat_digits_no_slash: "CHR ''/'' \<notin> set (nat_digits n)"
  using nat_digits_all_digits [of n] by (auto simp: list_all_iff is_digit_def)

lemma split_on_no_delim: "d \<notin> set xs \<Longrightarrow> split_on d xs = [xs]"
  by (induction xs) auto

lemma delete_request_rules:
  "url_rules (path_segments (path (delete_request k))) = [([DELETE], EDeleteActivity (int (nat k)))]"
proof -
  have "parse_nat (nat_digits (nat k)) = Some (nat k)"
    by (rule parse_nat_nat_digits)
  moreover have "path_segments (path (delete_request k)) = [''activities'', nat_digits (nat k)]"
    by (simp add: delete_request_def path_segments_def split_on_no_delim nat_digits_no_slash)
  ultimately show ?thesis
    by (simp add: url_rules_def)
qed

lemma find_distinct_key: "x \<in> set xs \<Longrightarrow> distinct (map f xs) \<Longrightarrow> find (\<lambda>y. f y = f x) xs = Some x"
  by (induction xs) (auto simp: rev_image_eqI)

lemma handle_delete_request:
  assumes "a \<in> set (activities s)" "a_id a = k" "0 \<le> k" "int64_ok k" "distinct (map a_id (activities s))"
  shows "snd (handle (delete_request k) s) = delete_activity_cascade k s"
proof -
  have "find (\<lambda>a. a_id a = k) (activities s) = Some a"
    using find_distinct_key [OF assms(1,5)] assms(2) by simp
  then show ?thesis
    using assms(2-4) delete_request_rules [of k]
    by (simp add: handle_snd dispatch_def Let_def allows_def delete_request_def delete_activity_def
        get_activity_def)
qed

lemma serve_deletes:
  "distinct ks \<Longrightarrow> set ks \<subseteq> set (map a_id (activities s)) \<Longrightarrow> list_all (\<lambda>k. 0 \<le> k \<and> int64_ok k) ks \<Longrightarrow>
   distinct (map a_id (activities s)) \<Longrightarrow>
   serve (map delete_request ks) s =
     s\<lparr>signups := filter (\<lambda>x. s_activity_id x \<notin> PInt ` set ks) (signups s),
       activities := filter (\<lambda>a. a_id a \<notin> set ks) (activities s)\<rparr>"
proof (induction ks arbitrary: s)
  case Nil
  then show ?case by simp
next
  case (Cons k ks)
  then obtain a where a: "a \<in> set (activities s)" "a_id a = k"
    by auto
  let ?s1 = "delete_activity_cascade k s"
  have h: "snd (handle (delete_request k) s) = ?s1"
    using Cons.prems a by (intro handle_delete_request) simp_all
  have "set ks \<subseteq> set (map a_id (activities ?s1))"
    using Cons.prems by (force simp: delete_activity_cascade_def)
  moreover have "distinct (map a_id (activities ?s1))"
    using Cons.prems by (simp add: delete_activity_cascade_def distinct_map_filter)
  ultimately
  have "serve (map delete_request ks) ?s1 =
      ?s1\<lparr>signups := filter (\<lambda>x. s_activity_id x \<notin> PInt ` set ks) (signups ?s1),
          activities := filter (\<lambda>a. a_id a \<notin> set ks) (activities ?s1)\<rparr>"
    using Cons.prems by (intro Cons.IH) simp_all
  then show ?case
    by (simp add: h delete_activity_cascade_def filter_filter conj_commute)
qed

text \<open>
  C30. From any well-formed store whose activity ids are valid
  \<open><int:id>\<close> values, deleting every activity in turn through DELETE
  /activities/<id> reaches a store with no activities and no signups, the
  campers untouched: the cascade removes every signup, since each belongs to
  some activity.
\<close>

theorem delete_all_activities:
  assumes "wf_db s" "list_all (\<lambda>a. 0 \<le> a_id a \<and> int64_ok (a_id a)) (activities s)"
  shows "let s' = serve (map delete_request (map a_id (activities s))) s
         in signups s' = [] \<and> activities s' = [] \<and> campers s' = campers s"
proof -
  let ?ks = "map a_id (activities s)"
  have d: "distinct ?ks"
    using assms(1) by (simp add: wf_db_def sorted_wrt_less_distinct)
  have "list_all (\<lambda>k. 0 \<le> k \<and> int64_ok k) ?ks"
    using assms(2) by (simp add: list_all_iff)
  with d have s': "serve (map delete_request ?ks) s =
      s\<lparr>signups := filter (\<lambda>x. s_activity_id x \<notin> PInt ` set ?ks) (signups s),
        activities := filter (\<lambda>a. a_id a \<notin> set ?ks) (activities s)\<rparr>"
    by (intro serve_deletes) simp_all
  have "\<forall>x\<in>set (signups s). s_activity_id x \<in> PInt ` set ?ks"
    using assms(1) by (auto simp: wf_db_def list_all_iff refs_ok_def)
  then show ?thesis
    unfolding Let_def s' by (simp add: filter_empty_conv)
qed

theorem delete_all_activities_witness:
  "let s' = serve (map delete_request (map a_id (activities camp_db))) camp_db
   in signups s' = [] \<and> activities s' = [] \<and> campers s' = campers camp_db"
  by (rule delete_all_activities) code_simp+

end
