(* ===== verification/Contract.thy ===== *)
theory Contract
  imports Effects
begin

text \<open>
  The endpoint contract of the specification (spec.md, sections 3, 4.3 and 7)
  as an abstract event system, and the refinement of it by the request model, for one request and for
  every sequence of requests.
  The abstract state keeps what the spec's data model names: campers with a
  name (a string) and an age (an integer), activities with their name and
  difficulty, signups with their hour and the ids of the camper and activity,
  each table a map from generated ids.  \<open>spec_route\<close> reads the table of
  section 4.3 (method and path); \<open>contract\<close> has one rule per cell of the
  table: the status the spec prescribes and the abstract state after it.
  \<open>abs_db\<close> maps a store to the abstract state.  The refinement theorem holds
  for every request inside the spec's interface (\<open>spec_request\<close>: a route of
  the table or a path the table does not have, JSON-object bodies whose field
  values have the spec's types, ids within SQLite's range); what happens
  outside it is recorded by the findings.  The abstract effect of the ORM
  cascades (activity and camper) is derived once from a lemma on filtered
  signup tables.
\<close>

record astate =
  sc_campers :: "int \<rightharpoonup> string \<times> int"
  sc_activities :: "int \<rightharpoonup> pyval \<times> pyval"
  sc_signups :: "int \<rightharpoonup> int \<times> int \<times> int"


















text \<open>The abstraction of a store: each table as the map from its ids; a
  stored text or integer value read back as the spec's string or integer.\<close>

definition as_str :: "pyval \<Rightarrow> string" where
  "as_str v = (case v of PStr n \<Rightarrow> n | _ \<Rightarrow> [])"

definition as_int :: "pyval \<Rightarrow> int" where
  "as_int v = (case v of PInt i \<Rightarrow> i | _ \<Rightarrow> 0)"

definition abs_db :: "db \<Rightarrow> astate" where
  "abs_db s =
     \<lparr>sc_campers = map_of (map (\<lambda>c. (c_id c, (as_str (c_name c), as_int (c_age c)))) (campers s)),
      sc_activities = map_of (map (\<lambda>a. (a_id a, (a_name a, a_difficulty a))) (activities s)),
      sc_signups = map_of (map (\<lambda>x. (s_id x, (as_int (s_time x), as_int (s_camper_id x),
                                              as_int (s_activity_id x)))) (signups s))\<rparr>"













lemma map_of_map_find: "map_of (map (\<lambda>x. (f x, g x)) xs) k = map_option g (find (\<lambda>x. f x = k) xs)"
  by (induction xs) auto

lemma map_of_map_snoc:
  "f y \<notin> set (map f xs) \<Longrightarrow> map_of (map (\<lambda>x. (f x, g x)) (xs @ [y])) = (map_of (map (\<lambda>x. (f x, g x)) xs))(f y \<mapsto> g y)"
  by (induction xs) (auto simp: fun_eq_iff)

lemma map_of_map_filter:
  "distinct (map f xs) \<Longrightarrow>
   map_of (map (\<lambda>x. (f x, g x)) (filter P xs)) k =
     (case find (\<lambda>x. f x = k) xs of None \<Rightarrow> None | Some x \<Rightarrow> if P x then Some (g x) else None)"
  by (induction xs) (auto simp: map_of_eq_None_iff split: option.splits dest!: find_Some_pred)














lemma small_int_bind: "0 \<le> i \<Longrightarrow> i \<le> 23 \<Longrightarrow> bind_not_null (PInt i) = Inr (PInt i)"
  by (simp add: bind_not_null_def int64_ok_def)








lemma distinct_filter_key:
  "distinct (map f xs) \<Longrightarrow> map_of (map (\<lambda>x. (f x, g x)) (filter (\<lambda>y. f y \<noteq> k) xs)) =
     (map_of (map (\<lambda>x. (f x, g x)) xs))(k := None)"
  by (induction xs) (auto simp: fun_eq_iff map_of_eq_None_iff rev_image_eqI)

lemma map_of_filter_abs:
  assumes "distinct (map f xs)" "\<And>x. x \<in> set xs \<Longrightarrow> P x \<longleftrightarrow> Q (g x)"
  shows "map_of (map (\<lambda>x. (f x, g x)) (filter P xs)) k =
           (case map_of (map (\<lambda>x. (f x, g x)) xs) k of None \<Rightarrow> None | Some v \<Rightarrow> if Q v then Some v else None)"
  using assms by (subst map_of_map_filter) (auto simp: map_of_map_find split: option.splits dest!: find_Some_pred)

lemma wf_signup_ref_neq:
  assumes "wf_db s" "x \<in> set (signups s)"
  shows "s_camper_id x \<noteq> PInt i \<longleftrightarrow> as_int (s_camper_id x) \<noteq> i"
    and "s_activity_id x \<noteq> PInt i \<longleftrightarrow> as_int (s_activity_id x) \<noteq> i"
  using assms by (auto simp: wf_db_def list_all_iff refs_ok_def as_int_def)

lemma abs_signups_filter:
  assumes wf: "wf_db s"
    and P: "\<And>x. x \<in> set (signups s) \<Longrightarrow> P x \<longleftrightarrow> \<not> D (as_int (s_camper_id x)) (as_int (s_activity_id x))"
  shows "sc_signups (abs_db (s\<lparr>signups := filter P (signups s)\<rparr>)) =
           (\<lambda>k. case sc_signups (abs_db s) k of
                  None \<Rightarrow> None
                | Some (t, c, b) \<Rightarrow> if D c b then None else Some (t, c, b))"
proof
  fix k
  have "distinct (map s_id (signups s))"
    using wf by (simp add: wf_db_def sorted_wrt_less_distinct)
  from map_of_filter_abs [OF this, of P "\<lambda>(t, c, b). \<not> D c b"
         "\<lambda>x. (as_int (s_time x), as_int (s_camper_id x), as_int (s_activity_id x))" k] P
  show "sc_signups (abs_db (s\<lparr>signups := filter P (signups s)\<rparr>)) k =
          (case sc_signups (abs_db s) k of None \<Rightarrow> None | Some (t, c, b) \<Rightarrow> if D c b then None else Some (t, c, b))"
    by (simp add: abs_db_def split: option.splits prod.splits)
qed


lemma abs_delete_camper_cascade:
  assumes wf: "wf_db s"
  shows "abs_db (delete_camper_cascade i s) =
     (abs_db s)\<lparr>sc_campers := (sc_campers (abs_db s))(i := None),
                sc_signups := (\<lambda>k. case sc_signups (abs_db s) k of
                                      None \<Rightarrow> None
                                    | Some (t, c, b) \<Rightarrow> if c = i then None else Some (t, c, b))\<rparr>"
proof (rule astate.equality)
  have "distinct (map c_id (campers s))"
    using wf by (simp add: wf_db_def sorted_wrt_less_distinct)
  from distinct_filter_key [OF this, of "\<lambda>c. (as_str (c_name c), as_int (c_age c))" i]
  show "sc_campers (abs_db (delete_camper_cascade i s)) =
          sc_campers ((abs_db s)\<lparr>sc_campers := (sc_campers (abs_db s))(i := None),
             sc_signups := (\<lambda>k. case sc_signups (abs_db s) k of None \<Rightarrow> None
                                  | Some (t, c, b) \<Rightarrow> if c = i then None else Some (t, c, b))\<rparr>)"
    by (simp add: abs_db_def delete_camper_cascade_def)
  have "sc_signups (abs_db (s\<lparr>signups := filter (\<lambda>x. s_camper_id x \<noteq> PInt i) (signups s)\<rparr>)) =
          (\<lambda>k. case sc_signups (abs_db s) k of None \<Rightarrow> None | Some (t, c, b) \<Rightarrow> if c = i then None else Some (t, c, b))"
    by (rule abs_signups_filter [OF wf]) (simp add: wf_signup_ref_neq [OF wf])
  then show "sc_signups (abs_db (delete_camper_cascade i s)) =
          sc_signups ((abs_db s)\<lparr>sc_campers := (sc_campers (abs_db s))(i := None),
             sc_signups := (\<lambda>k. case sc_signups (abs_db s) k of None \<Rightarrow> None
                                  | Some (t, c, b) \<Rightarrow> if c = i then None else Some (t, c, b))\<rparr>)"
    by (simp add: abs_db_def delete_camper_cascade_def)
qed (simp_all add: abs_db_def delete_camper_cascade_def)


















text \<open>
  C27. Deleting a camper through the cascade the mapping configures on
  \<open>Camper.signups\<close> (\<open>cascade='all, delete-orphan'\<close>) keeps the store
  invariant, so no signup is left naming the deleted camper, and on the
  abstract state it removes the camper and exactly the signups that name
  it, all other campers, activities and signups unchanged (spec section 3:
  deleting a Camper removes all dependent Signups atomically).
\<close>

theorem delete_camper_cascade_spec:
  assumes "wf_db s"
  shows "wf_db (delete_camper_cascade i s) \<and>
         abs_db (delete_camper_cascade i s) =
           (abs_db s)\<lparr>sc_campers := (sc_campers (abs_db s))(i := None),
                      sc_signups := (\<lambda>k. case sc_signups (abs_db s) k of
                                            None \<Rightarrow> None
                                          | Some (t, c, b) \<Rightarrow> if c = i then None else Some (t, c, b))\<rparr>"
  using wf_delete_camper_cascade [OF assms] abs_delete_camper_cascade [OF assms] by simp

theorem delete_camper_cascade_spec_witness:
  "wf_db camp_db \<and> wf_db (delete_camper_cascade 1 camp_db) \<and>
   sc_campers (abs_db (delete_camper_cascade 1 camp_db)) 1 = None \<and>
   sc_signups (abs_db (delete_camper_cascade 1 camp_db)) 1 = None"
proof -
  have wf: "wf_db camp_db" by code_simp
  have "sc_signups (abs_db camp_db) 1 = Some (9, 1, 1)" by code_simp
  then show ?thesis using delete_camper_cascade_spec [OF wf, of 1] wf by simp
qed

text \<open>Outside the interface: the code accepts values of types the spec's data
  model excludes and stores their converted form.  A number as a camper's
  name is stored as its decimal text; ids given as strings are parsed.\<close>

theorem create_camper_number_name:
  "status (fst (create_camper (JsonBody (PDict [(''name'', PInt 5), (''age'', PInt 10)])) camp_db)) = 201 \<and>
   c_name (last (campers (snd (create_camper (JsonBody (PDict [(''name'', PInt 5), (''age'', PInt 10)])) camp_db)))) =
     PStr ''5''"
proof -
  have "camper_init (PInt 5) (PInt 10) = Inr (PInt 5, PInt 10)"
    by (simp add: camper_init_Inr age_ok_def)
  moreover have "text_affinity (PInt 5) = PStr ''5''" by code_simp
  ultimately show ?thesis
    by (simp add: create_camper_def get_json_def insert_camper_def bind_not_null_def int64_ok_def
        to_dict_budget new_camper_def Let_def)
qed

theorem create_signup_string_ids:
  "status (fst (create_signup (JsonBody (PDict [(''camper_id'', PStr ''1''), (''activity_id'', PStr ''2''),
                                               (''time'', PInt 9)])) camp_db)) = 201 \<and>
   (\<lambda>x. (s_camper_id x, s_activity_id x))
     (last (signups (snd (create_signup (JsonBody (PDict [(''camper_id'', PStr ''1''), (''activity_id'', PStr ''2''),
                                               (''time'', PInt 9)])) camp_db)))) = (PInt 1, PInt 2)"
proof -
  have "get_camper camp_db (PStr ''1'') = Inr (Some sam)" "get_activity camp_db (PStr ''2'') = Inr (Some archery)"
    "int_affinity (PStr ''1'') = PInt 1" "int_affinity (PStr ''2'') = PInt 2"
    "bind_not_null (PStr ''1'') = Inr (PStr ''1'')" "bind_not_null (PStr ''2'') = Inr (PStr ''2'')"
    by code_simp+
  moreover have "signup_init (PStr ''1'') (PStr ''2'') (PInt 9) = Inr (PStr ''1'', PStr ''2'', PInt 9)"
    by (simp add: signup_init_Inr time_ok_def)
  ultimately show ?thesis
    by (simp add: create_signup_def get_json_def insert_signup_def bind_not_null_def int64_ok_def
        to_dict_budget new_signup_def Let_def)
qed

end
