(* ===== verification/Spec2Isabelle.thy ===== *)
theory Spec2Isabelle
  imports Seed Config Effects Contract
begin

text \<open>
  \<^bold>\<open>Camping Fun: a verification development of the Flask camp service.\<close>

  \<^bold>\<open>The program.\<close>  A Flask application (\<open>src/server/__init__.py\<close>
  \<open>create_app\<close>, \<open>src/server/app.py\<close>) with one blueprint of seven views
  (\<open>src/server/routes.py\<close>) over three Flask-SQLAlchemy models
  (\<open>src/server/models.py\<close>: \<open>Camper\<close>, \<open>Activity\<close>, \<open>Signup\<close>, with
  \<open>@validates\<close> hooks and \<open>serialize_rules\<close> for sqlalchemy-serializer's
  \<open>to_dict\<close>), stored in SQLite; \<open>src/seed.py\<close> fills the database once
  (random draws: the script's behaviour is stated for every draw).
  A request flows: URL map \<open>\<rightarrow>\<close> view function \<open>\<rightarrow>\<close> model constructor or
  attribute assignment (hooks run) \<open>\<rightarrow>\<close> session commit or rollback
  \<open>\<rightarrow>\<close> \<open>to_dict\<close> \<open>\<rightarrow>\<close> \<open>jsonify\<close>.

  \<^bold>\<open>Theories, in import order.\<close>
  \<^item> \<open>Prelude\<close>: the bind \<open>ebind\<close> of the exception sum \<open>exc + 'a\<close> (a raised
    exception is \<open>Inl\<close>), \<open>str.split\<close> as \<open>split_on\<close>, the largest-key
    helper of row-id allocation, shared list/option lemmas.
  \<^item> \<open>PyValue\<close>: the Python values a JSON body parses to (\<open>pyval\<close>), the
    exceptions (\<open>exc\<close>), and the Python operations the code applies:
    truthiness, the chained comparison, \<open>dict.get\<close>, \<open>in\<close>, subscription;
    decimal printing and the digit parser of \<open><int:id>\<close>.
  \<^item> \<open>Models\<close> (models.py): records \<open>camper_row\<close>, \<open>activity_row\<close>,
    \<open>signup_row\<close> of the columns; the hooks \<open>validate_name\<close>,
    \<open>validate_age\<close>, \<open>validate_time\<close>; the constructors \<open>camper_init\<close>,
    \<open>signup_init\<close> running the hooks in keyword order; exact accept/raise
    characterisation of the age hook (C15).
  \<^item> \<open>Store\<close> (the SQLite tables through the ORM session): record \<open>db\<close> of
    three row lists in row-id order; \<open>Model.query.get\<close> as \<open>get_camper\<close>,
    \<open>get_activity\<close> (SQLAlchemy's reading of the identity argument
    \<open>pk_identity\<close>: a one-element list or a dict \<open>{"id": v}\<close> names
    \<open>v\<close>, other lists and dicts raise InvalidRequestError; key coercion of
    the value \<open>pk_scalar\<close>, 64-bit overflow on binding);
    INSERT with NOT NULL, parameter binding, row id = largest + 1
    (\<open>next_rowid\<close>) and column affinity; UPDATE of a dirty camper; the ORM
    cascades of \<open>Activity.signups\<close> and \<open>Camper.signups\<close>
    (\<open>delete_activity_cascade\<close>, \<open>delete_camper_cascade\<close>); the
    relationship loads; the invariant \<open>wf_db\<close> and its preservation by each
    store operation; row-id allocation agrees with SQLite's documented rule
    (\<open>next_rowid_Max\<close>).
  \<^item> \<open>Serializer\<close> (sqlalchemy-serializer's \<open>to_dict\<close> under the models'
    \<open>serialize_rules\<close>): a fuelled \<open>to_dict\<close>, the explicit views
    \<open>camper_view\<close>, \<open>activity_view\<close>, \<open>signup_view\<close> as the abstract
    specification, refinement lemmas that \<open>to_dict\<close> computes them,
    termination within three levels under any caller rules (C13), and
    independence of the result from any budget of at least three
    (\<open>to_dict_budget_independent\<close>).
  \<^item> \<open>Routes\<close> (routes.py): one definition per view function returning the
    response and the store after the request; per-view lemmas for every branch
    the spec names (C3--C12, C14, C16, C20, C21, C23, C24) and, for each mutating view,
    invariant preservation and rollback on error.
  \<^item> \<open>App\<close> (app.py, \<open>__init__.py\<close>, Werkzeug routing): the URL map
    \<open>url_rules\<close>, \<open>dispatch\<close> and \<open>handle\<close> of one request as Werkzeug 2.2
    and later match it (leading slashes dropped, a 308 redirect when the path
    matches only with runs of slashes merged, 404 through the app handler,
    405, OPTIONS, HEAD); the step relation \<open>reachable\<close>; the invariant in
    every reachable store (C1), rollback of every error response (C2),
    bodies not declared JSON (C22), GET never writes (C25).
  \<^item> \<open>Seed\<close> (\<open>src/seed.py\<close>): the bulk clears \<open>clear_tables\<close>, the loops
    \<open>add_activities\<close>, \<open>add_campers\<close>, \<open>add_signups\<close> and the whole script
    \<open>seed\<close>, with the draws of \<open>randint\<close> and \<open>choice\<close> as parameters; on
    every possible draw the script succeeds with a well-formed store numbered
    from 1 (C17) holding exactly the fixed names and the drawn values (C18).
  \<^item> \<open>Config\<close> (\<open>__init__.py\<close>, \<open>app.py\<close>): \<open>load_dotenv\<close>,
    \<open>create_app\<close> with its configuration read from the environment,
    \<open>register_blueprint\<close>, the module \<open>app_module\<close> and its \<open>__main__\<close>
    block \<open>app_main\<close> (FLASK_APP assigned after the app has read it); the module's
    application routes exactly by \<open>url_rules\<close> (\<open>app_module_routes\<close>), the environment
    takes priority over \<open>.env\<close> and the defaults
    (\<open>create_app_config\<close>), a second registration raises
    (\<open>register_twice_error\<close>).
  \<^item> \<open>Effects\<close>: the inductive \<open>store_effect\<close> lists the store operations
    one request can commit, and \<open>handle_store_effect\<close> shows every request
    is one of them; invariants are then proved per operation: ids within the
    number of requests served (C28), column types of ages and times (C29),
    and the liveness of emptying the activities and signups by DELETE
    requests (C30).
  \<^item> \<open>Contract\<close>: the endpoint table of the spec (section 4.3, with the
    rollback of section 7 and the generated ids of section 3) as an abstract
    system: state \<open>astate\<close> of three maps from ids, the route classifier
    \<open>spec_route\<close>, the inductive \<open>contract\<close> with one rule per cell, and
    the abstraction \<open>abs_db\<close> of a store.  The interface
    \<open>spec_request\<close> has the paths of the table written with single slashes
    (\<open>clean_path\<close>), JSON-object bodies whose fields have the spec's types,
    and ids that are integers within SQLite's range or absent.  One lemma per view shows the view
    refines its cells; together they give the refinement of the contract by
    \<open>handle\<close> on every well-formed store and every request of the spec's
    interface \<open>spec_request\<close>, and by induction every sequence of such
    requests served by \<open>serve\<close> is a run \<open>contract_run\<close> of the
    contract (C26).  The camper cascade, which no endpoint reaches, keeps
    the invariant and removes exactly the camper's signups (C27).  Requests outside it (a
    number as a name, string ids) are accepted by the code, shown on concrete
    inputs.
  \<^item> this theory: the end-to-end scenario of the spec run through
    \<open>handle\<close> (\<open>spec_scenario\<close>, a worked example) and serving after
    seeding (C19: every request sequence from a seeded store keeps the
    invariant).

  \<^bold>\<open>Fuel and bounds.\<close>  \<open>to_dict\<close> recurses through relationships and stops
  only where an exclusion rule cuts; its fuel \<open>recursion_budget\<close> (100)
  stands for Python's recursion limit.  C13 shows three levels suffice under
  any rules the code passes and \<open>to_dict_budget_independent\<close> that every
  budget of at least three gives
  the same result, so the budget never binds.  Ids are bounded by the number
  of requests served (C28), so the 64-bit range of row ids is reached only
  after \<open>2^63\<close> requests.  Integers are
  unbounded Python ints; SQLite's signed 64-bit bound is written out where
  binding a parameter can overflow (\<open>int64_ok\<close>).

  \<^bold>\<open>Findings recorded by theorems.\<close>  GET /campers and the create/update
  responses include \<open>signups\<close> (C4, C9, C10), and GET /activities nests
  signups too (C20), although the spec's default view excludes relationships;
  POST with a body not declared JSON is Flask's 415 page (C22); PATCH with a
  JSON array body is accepted unchanged with 202 (C21); POST /signups with a
  non-object JSON body is a 500 (C14), and so is a \<open>camper_id\<close> given as a
  list or dict that SQLAlchemy cannot read as an identity (C24); the time
  hook accepts non-integer times (C12 with any number within 0..23) and a
  float age or time is stored as REAL (C29); ids beyond 64 bits give 500
  (C23); the spec's scenario creates an activity through the API, but POST
  /activities is 405 (\<open>spec_scenario\<close>); the seed script creates signups
  directly, although the spec's lifecycle says they are created through the
  endpoint only (C18); a number as a camper's name
  and ids given as strings are accepted (\<open>create_camper_number_name\<close>,
  \<open>create_signup_string_ids\<close> in \<open>Contract\<close>).

  \<^bold>\<open>Not modelled.\<close>  Flask/Werkzeug internals beyond routing (headers,
  content negotiation, the Location header of a redirect, the debug server
  and how a WSGI server turns a request target into \<open>PATH_INFO\<close>: the
  model's \<open>path\<close> is \<open>PATH_INFO\<close>), Unicode digits in
  \<open><int:id>\<close>, SQLite's conversion of REAL-looking text and of floats to text,
  NaN/Infinity in JSON, concurrency between requests (the spec fixes one transaction per
  request; requests are modelled as a sequence of steps), the migration
  scripts of Flask-Migrate (not under \<open>src/\<close>), the development server
  started by \<open>app.run\<close> under \<open>__main__\<close> beyond its parameters, and the \<open>__repr__\<close> methods of
  the models (debugging output; their float formatting would need Python's
  shortest-repr algorithm).

  \<^bold>\<open>Open ends.\<close>  The request-level refinement (C26) covers the spec's
  interface; requests outside it are described by the error and finding
  theorems, not by a second contract for the conversions the code applies.
  PATCH with a string body (substring \<open>in\<close>) is modelled but only its
  list-body case has a theorem (C21).  The seed script is modelled as a run
  of its own followed by serving (C19), not as a step of the request model.
\<close>

definition post_sam :: request where
  "post_sam = \<lparr>req_method = POST, path = ''/campers'',
               payload = JsonBody (PDict [(''name'', PStr ''Sam''), (''age'', PInt 12)])\<rparr>"

text \<open>
  The scenario of the spec, run through \<open>handle\<close> from an empty
  database: creating Sam (12) answers 201 with id 1 (and an empty
  \<open>signups\<close> list); PATCH age 25 answers 400 and changes nothing; POST
  /activities is 405, so the activity is inserted directly; the signup
  answers 201; DELETE /activities/1 answers 204 and removes the signup; GET
  /campers/1 then shows an empty \<open>signups\<close> list.
\<close>

theorem spec_scenario:
  "let (r1, s1) = handle post_sam empty_db;
       (r2, s2) = handle \<lparr>req_method = PATCH, path = ''/campers/1'',
                          payload = JsonBody (PDict [(''age'', PInt 25)])\<rparr> s1;
       (r3, s3) = handle \<lparr>req_method = POST, path = ''/activities'',
                          payload = JsonBody (PDict [(''name'', PStr ''Canoeing''), (''difficulty'', PInt 3)])\<rparr> s2;
       s3' = s3\<lparr>activities := [\<lparr>a_id = 1, a_name = PStr ''Canoeing'', a_difficulty = PInt 3\<rparr>]\<rparr>;
       (r4, s4) = handle \<lparr>req_method = POST, path = ''/signups'',
                          payload = JsonBody (PDict [(''camper_id'', PInt 1), (''activity_id'', PInt 1),
                                                     (''time'', PInt 9)])\<rparr> s3';
       (r5, s5) = handle \<lparr>req_method = DELETE, path = ''/activities/1'', payload = NotJson\<rparr> s4;
       (r6, s6) = handle \<lparr>req_method = GET, path = ''/campers/1'', payload = NotJson\<rparr> s5
   in r1 = json_resp 201 (PDict [(''id'', PInt 1), (''name'', PStr ''Sam''), (''age'', PInt 12),
                                 (''signups'', PList [])]) \<and>
      status r2 = 400 \<and> s2 = s1 \<and> status r3 = 405 \<and> status r4 = 201 \<and>
      r5 = \<lparr>status = 204, body = REmpty\<rparr> \<and> signups s5 = [] \<and>
      r6 = json_resp 200 (PDict [(''id'', PInt 1), (''name'', PStr ''Sam''), (''age'', PInt 12),
                                 (''signups'', PList [])])"
  by code_simp

lemma fold_handle_wf: "wf_db s \<Longrightarrow> wf_db (fold (\<lambda>r s. snd (handle r s)) rs s)"
  by (induction rs arbitrary: s) (simp_all add: handle_wf)

text \<open>
  C19. Seeding and then serving: on every draw \<open>random\<close> can make, the seed
  script succeeds, and every sequence of requests served afterwards keeps the
  store well formed (unique sorted ids, valid names, ages and times, no signup
  without its camper and activity).
\<close>

theorem seeded_service_wf:
  assumes "length ds = 6" "list_all (\<lambda>d. 1 \<le> d \<and> d \<le> 5) ds"
    and "length ages = 8" "list_all (\<lambda>a. 8 \<le> a \<and> a \<le> 18) ages"
    and "list_all (\<lambda>(i, j, t). i < 8 \<and> j < 6 \<and> 0 \<le> t \<and> t \<le> 23) picks"
  shows "\<exists>s0. seed ds ages picks s = Inr s0 \<and> (\<forall>rs. wf_db (fold (\<lambda>r s. snd (handle r s)) rs s0))"
  using seed_result [OF assms] fold_handle_wf by blast

theorem seeded_service_wf_witness:
  "\<exists>s0. seed [1, 1, 1, 1, 1, 1] [8, 8, 8, 8, 8, 8, 8, 8] [(3, 2, 12)] empty_db = Inr s0 \<and>
        (\<forall>rs. wf_db (fold (\<lambda>r s. snd (handle r s)) rs s0))"
  by (rule seeded_service_wf) simp_all

end
